theory Spec2Isabelle
  imports Main
begin

section \<open>The device transport\<close>

text \<open>
  The program (\<^verbatim>\<open>src/main.py\<close>) talks to the television through the \<^verbatim>\<open>ppadb\<close> client
  library.  That library is not part of the repository, so it is a parameter of the model:
  a \<open>transport\<close> says, for every call the program makes, whether the call raises or what it
  returns.  The answer may depend on the whole history of transport calls made so far, so
  that every behaviour of the device (reachable, unreachable, failing after the third
  call, ...) is one value of the parameter.

  An exception is identified by its class name and by where its class stands:
  \<open>PyException\<close> is an instance of Python's \<^verbatim>\<open>Exception\<close> (\<^verbatim>\<open>RuntimeError\<close>, \<^verbatim>\<open>OSError\<close>,
  \<^verbatim>\<open>KeyError\<close>, ...), which \<^verbatim>\<open>except Exception\<close> and a bare \<^verbatim>\<open>except:\<close> both catch;
  \<open>PyBaseException\<close> is an instance of \<^verbatim>\<open>BaseException\<close> only (\<^verbatim>\<open>KeyboardInterrupt\<close>,
  \<^verbatim>\<open>SystemExit\<close>, \<^verbatim>\<open>GeneratorExit\<close>), which only the bare \<^verbatim>\<open>except:\<close> catches.  A device handle
  is identified by a number; a falsy return value of \<^verbatim>\<open>client.connect\<close> (\<^verbatim>\<open>None\<close>, \<^verbatim>\<open>False\<close>)
  is \<open>None\<close>.
\<close>

datatype exn = PyException string | PyBaseException string

fun is_Exception :: "exn \<Rightarrow> bool" where
  "is_Exception (PyException cls) = True"
| "is_Exception (PyBaseException cls) = False"

text \<open>
  The handler \<^verbatim>\<open>except Exception as e: ...; return v\<close> on a raised exception \<open>e\<close>: the method
  returns \<open>v\<close> when \<open>e\<close> is an instance of \<^verbatim>\<open>Exception\<close>, and \<open>e\<close> leaves the method otherwise.
\<close>

definition except_Exception :: "exn \<Rightarrow> 'a \<Rightarrow> exn + 'a" where
  "except_Exception e v = (if is_Exception e then Inr v else Inl e)"

datatype 'a outcome = Raises exn | Returns 'a

type_synonym handle = nat

datatype event =
    Connect string int
  | GetSerialNo handle
  | Shell handle string

record transport =
  client_connect :: "event list \<Rightarrow> string \<Rightarrow> int \<Rightarrow> handle option outcome"
  get_serial_no :: "event list \<Rightarrow> handle \<Rightarrow> string option outcome"
  shell :: "event list \<Rightarrow> handle \<Rightarrow> string \<Rightarrow> string outcome"

text \<open>Truthiness of what \<^verbatim>\<open>get_serial_no()\<close> returns: \<^verbatim>\<open>None\<close> and the empty string are falsy.\<close>

fun truthy_str :: "string option \<Rightarrow> bool" where
  "truthy_str None = False"
| "truthy_str (Some s) = (s \<noteq> [])"

section \<open>Configuration\<close>

text \<open>
  \<^verbatim>\<open>str.split(',')\<close> with an explicit separator: the pieces between the separators, so the
  empty string gives one empty piece.
\<close>

fun split_sep :: "char \<Rightarrow> string \<Rightarrow> string list" where
  "split_sep sep [] = [[]]"
| "split_sep sep (c # cs) =
     (if c = sep then [] # split_sep sep cs
      else (case split_sep sep cs of
              [] \<Rightarrow> [[c]]
            | w # ws \<Rightarrow> (c # w) # ws))"

text \<open>\<^verbatim>\<open>os.getenv(name, default)\<close> on an environment given as a map.\<close>

definition getenv :: "(string \<rightharpoonup> string) \<Rightarrow> string \<Rightarrow> string \<Rightarrow> string" where
  "getenv env name dflt = (case env name of None \<Rightarrow> dflt | Some v \<Rightarrow> v)"

record config =
  ANDROID_TV_IP :: string
  ANDROID_TV_PORT :: int
  ALLOWED_EMAILS :: "string list"

text \<open>
  \<^verbatim>\<open>Config.ALLOWED_EMAILS = os.getenv('ALLOWED_EMAILS', '').split(',')\<close>, and the class
  \<^verbatim>\<open>Config\<close> as far as the modelled code reads it.  The port is \<^verbatim>\<open>int(os.getenv(...))\<close>;
  parsing it is not modelled, the parsed number is a parameter.
\<close>

definition Config_ALLOWED_EMAILS :: "(string \<rightharpoonup> string) \<Rightarrow> string list" where
  "Config_ALLOWED_EMAILS env = split_sep CHR '','' (getenv env ''ALLOWED_EMAILS'' [])"

definition Config :: "(string \<rightharpoonup> string) \<Rightarrow> int \<Rightarrow> config" where
  "Config env tv_port =
     \<lparr>ANDROID_TV_IP = getenv env ''ANDROID_TV_IP'' ''192.168.1.100'',
      ANDROID_TV_PORT = tv_port,
      ALLOWED_EMAILS = Config_ALLOWED_EMAILS env\<rparr>"

section \<open>Android key codes\<close>

definition KEYCODE_POWER :: int where "KEYCODE_POWER = 26"
definition KEYCODE_VOLUME_UP :: int where "KEYCODE_VOLUME_UP = 24"
definition KEYCODE_VOLUME_DOWN :: int where "KEYCODE_VOLUME_DOWN = 25"
definition KEYCODE_MUTE :: int where "KEYCODE_MUTE = 164"
definition KEYCODE_DPAD_UP :: int where "KEYCODE_DPAD_UP = 19"
definition KEYCODE_DPAD_DOWN :: int where "KEYCODE_DPAD_DOWN = 20"
definition KEYCODE_DPAD_LEFT :: int where "KEYCODE_DPAD_LEFT = 21"
definition KEYCODE_DPAD_RIGHT :: int where "KEYCODE_DPAD_RIGHT = 22"
definition KEYCODE_DPAD_CENTER :: int where "KEYCODE_DPAD_CENTER = 23"
definition KEYCODE_BACK :: int where "KEYCODE_BACK = 4"
definition KEYCODE_HOME :: int where "KEYCODE_HOME = 3"

text \<open>The decimal rendering of an integer inside an f-string.\<close>

definition digit_char :: "nat \<Rightarrow> char" where
  "digit_char d = ''0123456789'' ! (d mod 10)"

fun digits :: "nat \<Rightarrow> string" where
  "digits n = (if n < 10 then [digit_char n] else digits (n div 10) @ [digit_char n])"

definition str_int :: "int \<Rightarrow> string" where
  "str_int i = (if i < 0 then CHR ''-'' # digits (nat (- i)) else digits (nat i))"

section \<open>TVController\<close>

text \<open>
  The fields of the class.  The field \<^verbatim>\<open>client\<close> is always \<^verbatim>\<open>AdbClient("127.0.0.1", 5037)\<close>;
  the transport parameter stands for it.  A method takes the object and the history of
  transport calls and returns its result, the object as the method leaves it, and the
  history extended by the calls it made.  The result is \<open>Inl e\<close> when the exception
  \<open>e\<close> leaves the method and \<open>Inr v\<close> when the method returns \<open>v\<close>.  Logging is not modelled.
\<close>

record TVController =
  host :: string
  port :: int
  device :: "handle option"

type_synonym 'a result = "(exn + 'a) \<times> TVController \<times> event list"

definition TVController_init :: "string \<Rightarrow> int \<Rightarrow> TVController" where
  "TVController_init h p = \<lparr>host = h, port = p, device = None\<rparr>"

text \<open>
  \<^verbatim>\<open>connect\<close>: the whole body is inside \<^verbatim>\<open>try ... except Exception\<close>, so a
  \<^verbatim>\<open>client.connect\<close> or \<^verbatim>\<open>get_serial_no\<close> that raises an instance of \<^verbatim>\<open>Exception\<close> gives
  \<^verbatim>\<open>False\<close>, and any other exception leaves the method.  \<^verbatim>\<open>self.device\<close> is assigned only when
  the handle and its serial number are both truthy.
\<close>

definition connect :: "transport \<Rightarrow> TVController \<Rightarrow> event list \<Rightarrow> bool result" where
  "connect T self tr =
     (let tr1 = tr @ [Connect (host self) (port self)] in
      case client_connect T tr (host self) (port self) of
        Raises e \<Rightarrow> (except_Exception e False, self, tr1)
      | Returns None \<Rightarrow> (Inr False, self, tr1)
      | Returns (Some dev) \<Rightarrow>
          (let tr2 = tr1 @ [GetSerialNo dev] in
           case get_serial_no T tr1 dev of
             Raises e \<Rightarrow> (except_Exception e False, self, tr2)
           | Returns serial \<Rightarrow>
               if truthy_str serial then (Inr True, self\<lparr>device := Some dev\<rparr>, tr2)
               else (Inr False, self, tr2)))"

text \<open>
  \<^verbatim>\<open>ensure_connected\<close>: with a device handle, the probe \<^verbatim>\<open>shell('echo test')\<close>; when the
  probe raises anything at all, the bare \<^verbatim>\<open>except:\<close> returns what \<^verbatim>\<open>self.connect()\<close> returns
  (and lets out what leaves \<^verbatim>\<open>connect\<close>).  Without a handle, \<^verbatim>\<open>self.connect()\<close> directly.
\<close>

definition ensure_connected :: "transport \<Rightarrow> TVController \<Rightarrow> event list \<Rightarrow> bool result" where
  "ensure_connected T self tr =
     (case device self of
        Some dev \<Rightarrow>
          (case shell T tr dev ''echo test'' of
             Returns out \<Rightarrow> (Inr True, self, tr @ [Shell dev ''echo test''])
           | Raises e \<Rightarrow> connect T self (tr @ [Shell dev ''echo test'']))
      | None \<Rightarrow> connect T self tr)"

text \<open>
  \<^verbatim>\<open>send_keyevent\<close>: \<^verbatim>\<open>self.ensure_connected()\<close> is called outside the \<^verbatim>\<open>try\<close>, so an
  exception leaving it leaves \<^verbatim>\<open>send_keyevent\<close> too.  The instruction is written inside
  \<^verbatim>\<open>try ... except Exception\<close>: a shell call that raises an instance of \<^verbatim>\<open>Exception\<close> gives
  \<^verbatim>\<open>False\<close>, any other exception leaves the method.  \<^verbatim>\<open>self.device\<close> being \<^verbatim>\<open>None\<close> there
  would raise \<^verbatim>\<open>AttributeError\<close>, an instance of \<^verbatim>\<open>Exception\<close>.
\<close>

definition send_keyevent :: "transport \<Rightarrow> int \<Rightarrow> TVController \<Rightarrow> event list \<Rightarrow> bool result" where
  "send_keyevent T keycode self tr =
     (case ensure_connected T self tr of
        (Inl e, self1, tr1) \<Rightarrow> (Inl e, self1, tr1)
      | (Inr ok, self1, tr1) \<Rightarrow>
          if \<not> ok then (Inr False, self1, tr1)
          else (case device self1 of
                  None \<Rightarrow> (Inr False, self1, tr1)
                | Some dev \<Rightarrow>
                    (let cmd = ''input keyevent '' @ str_int keycode in
                     case shell T tr1 dev cmd of
                       Returns out \<Rightarrow> (Inr True, self1, tr1 @ [Shell dev cmd])
                     | Raises e \<Rightarrow> (except_Exception e False, self1, tr1 @ [Shell dev cmd]))))"

text \<open>
  The method \<^verbatim>\<open>power\<close> is named \<open>power_cmd\<close> here (\<open>power\<close> is exponentiation in HOL).
\<close>

definition power_cmd :: "transport \<Rightarrow> TVController \<Rightarrow> event list \<Rightarrow> bool result" where
  "power_cmd T self tr = send_keyevent T KEYCODE_POWER self tr"

definition volume_up :: "transport \<Rightarrow> TVController \<Rightarrow> event list \<Rightarrow> bool result" where
  "volume_up T self tr = send_keyevent T KEYCODE_VOLUME_UP self tr"

definition volume_down :: "transport \<Rightarrow> TVController \<Rightarrow> event list \<Rightarrow> bool result" where
  "volume_down T self tr = send_keyevent T KEYCODE_VOLUME_DOWN self tr"

definition mute :: "transport \<Rightarrow> TVController \<Rightarrow> event list \<Rightarrow> bool result" where
  "mute T self tr = send_keyevent T KEYCODE_MUTE self tr"

definition keycode_map :: "(string \<times> int) list" where
  "keycode_map =
     [(''up'', KEYCODE_DPAD_UP),
      (''down'', KEYCODE_DPAD_DOWN),
      (''left'', KEYCODE_DPAD_LEFT),
      (''right'', KEYCODE_DPAD_RIGHT),
      (''ok'', KEYCODE_DPAD_CENTER),
      (''back'', KEYCODE_BACK),
      (''home'', KEYCODE_HOME)]"

definition navigate :: "transport \<Rightarrow> string \<Rightarrow> TVController \<Rightarrow> event list \<Rightarrow> bool result" where
  "navigate T direction self tr =
     (case map_of keycode_map direction of
        None \<Rightarrow> (Inr False, self, tr)
      | Some keycode \<Rightarrow> send_keyevent T keycode self tr)"

definition launch_app :: "transport \<Rightarrow> string \<Rightarrow> TVController \<Rightarrow> event list \<Rightarrow> bool result" where
  "launch_app T package_name self tr =
     (case ensure_connected T self tr of
        (Inl e, self1, tr1) \<Rightarrow> (Inl e, self1, tr1)
      | (Inr ok, self1, tr1) \<Rightarrow>
          if \<not> ok then (Inr False, self1, tr1)
          else (case device self1 of
                  None \<Rightarrow> (Inr False, self1, tr1)
                | Some dev \<Rightarrow>
                    (let cmd = ''monkey -p '' @ package_name @
                               '' -c android.intent.category.LAUNCHER 1'' in
                     case shell T tr1 dev cmd of
                       Returns out \<Rightarrow> (Inr True, self1, tr1 @ [Shell dev cmd])
                     | Raises e \<Rightarrow> (except_Exception e False, self1, tr1 @ [Shell dev cmd]))))"

section \<open>The web application\<close>

text \<open>
  A logged-in user as Flask-Login's \<^verbatim>\<open>current_user\<close> presents it (class \<^verbatim>\<open>User\<close>; the field
  \<^verbatim>\<open>id\<close> is \<open>user_id\<close> here), and a request: the current user (\<open>None\<close> when the request is
  not authenticated) and what \<^verbatim>\<open>request.get_json()\<close> returns.  The body is \<^verbatim>\<open>None\<close> or a JSON
  object, as a list of key-value pairs; a value is a string, or some other JSON value
  (number, boolean, null, array, object), which is kept as the text Python's \<^verbatim>\<open>str()\<close>
  gives for it: the handlers only compare a value with strings and format it into text.
  Bodies that are not JSON objects are outside the model.
\<close>

record user =
  user_id :: string
  email :: string
  name :: string
  picture :: string

datatype jvalue = JString string | JOther string

fun py_str :: "jvalue \<Rightarrow> string" where
  "py_str (JString s) = s"
| "py_str (JOther rendering) = rendering"

record request =
  current_user :: "user option"
  get_json :: "(string \<times> jvalue) list option"

text \<open>
  A response: \<^verbatim>\<open>jsonify({'status': ..., 'message': ...})\<close> with its HTTP status code
  (200 when the handler gives none), or a redirect.
\<close>

datatype response = Json nat string string | Redirect string

fun status_code :: "response \<Rightarrow> nat" where
  "status_code (Json c st msg) = c"
| "status_code (Redirect target) = 302"

fun message :: "response \<Rightarrow> string" where
  "message (Json c st msg) = msg"
| "message (Redirect target) = []"

text \<open>
  The process state.  Controllers are objects: the cache \<^verbatim>\<open>tv_controller_cache\<close> maps a user
  id to a reference, and \<open>heap\<close> gives the object at a reference.  \<open>next_ref\<close> is the next
  unused reference; \<open>trace\<close> is the history of transport calls.
\<close>

record state =
  heap :: "nat \<Rightarrow> TVController"
  next_ref :: nat
  tv_controller_cache :: "string \<rightharpoonup> nat"
  trace :: "event list"

text \<open>A method call \<^verbatim>\<open>controller.m(...)\<close> on the object at reference \<open>r\<close>.\<close>

definition call_method ::
  "(TVController \<Rightarrow> event list \<Rightarrow> bool result) \<Rightarrow> nat \<Rightarrow> state \<Rightarrow> (exn + bool) \<times> state" where
  "call_method m r s =
     (case m (heap s r) (trace s) of
        (res, self1, tr1) \<Rightarrow> (res, s\<lparr>heap := (heap s)(r := self1), trace := tr1\<rparr>))"

text \<open>
  \<^verbatim>\<open>get_tv_controller\<close>: the cached controller of the user, or a new controller that is
  cached only when its \<^verbatim>\<open>connect()\<close> returns \<^verbatim>\<open>True\<close>.  The result is the reference of the
  controller, or \<^verbatim>\<open>None\<close>.
\<close>

definition get_tv_controller ::
  "transport \<Rightarrow> config \<Rightarrow> string \<Rightarrow> state \<Rightarrow> (exn + nat option) \<times> state" where
  "get_tv_controller T cfg uid s =
     (case tv_controller_cache s uid of
        None \<Rightarrow>
          (let r = next_ref s;
               s0 = s\<lparr>heap := (heap s)(r := TVController_init (ANDROID_TV_IP cfg) (ANDROID_TV_PORT cfg)),
                      next_ref := Suc r\<rparr>
           in case call_method (connect T) r s0 of
                (Inl e, s1) \<Rightarrow> (Inl e, s1)
              | (Inr ok, s1) \<Rightarrow>
                  if ok then (Inr (Some r), s1\<lparr>tv_controller_cache := (tv_controller_cache s1)(uid \<mapsto> r)\<rparr>)
                  else (Inr None, s1))
      | Some r \<Rightarrow> (Inr (Some r), s))"

text \<open>
  \<^verbatim>\<open>@login_required\<close> with the \<^verbatim>\<open>unauthorized\<close> handler: every modelled route is under
  \<^verbatim>\<open>/api/\<close>, so an unauthenticated request gets the 401 answer.
\<close>

definition unauthorized :: response where
  "unauthorized = Json 401 ''error'' ''Authentication required''"

text \<open>
  The part the six command routes share, written once: fetch the controller, answer 500
  when there is none, call the method, answer by its result.
\<close>

definition run_on_tv ::
  "transport \<Rightarrow> config \<Rightarrow> user \<Rightarrow> (TVController \<Rightarrow> event list \<Rightarrow> bool result) \<Rightarrow>
   string \<Rightarrow> string \<Rightarrow> state \<Rightarrow> (exn + response) \<times> state" where
  "run_on_tv T cfg u m ok_msg fail_msg s =
     (case get_tv_controller T cfg (user_id u) s of
        (Inl e, s1) \<Rightarrow> (Inl e, s1)
      | (Inr None, s1) \<Rightarrow> (Inr (Json 500 ''error'' ''Failed to connect to Android TV''), s1)
      | (Inr (Some r), s1) \<Rightarrow>
          (case call_method m r s1 of
             (Inl e, s2) \<Rightarrow> (Inl e, s2)
           | (Inr success, s2) \<Rightarrow>
               if success then (Inr (Json 200 ''success'' ok_msg), s2)
               else (Inr (Json 500 ''error'' fail_msg), s2)))"

definition api_power :: "transport \<Rightarrow> config \<Rightarrow> request \<Rightarrow> state \<Rightarrow> (exn + response) \<times> state" where
  "api_power T cfg req s =
     (case current_user req of
        None \<Rightarrow> (Inr unauthorized, s)
      | Some u \<Rightarrow>
          run_on_tv T cfg u (power_cmd T)
            ''Power command sent successfully'' ''Failed to send power command'' s)"

definition api_volume_up :: "transport \<Rightarrow> config \<Rightarrow> request \<Rightarrow> state \<Rightarrow> (exn + response) \<times> state" where
  "api_volume_up T cfg req s =
     (case current_user req of
        None \<Rightarrow> (Inr unauthorized, s)
      | Some u \<Rightarrow>
          run_on_tv T cfg u (volume_up T)
            ''Volume up command sent successfully'' ''Failed to send volume up command'' s)"

definition api_volume_down :: "transport \<Rightarrow> config \<Rightarrow> request \<Rightarrow> state \<Rightarrow> (exn + response) \<times> state" where
  "api_volume_down T cfg req s =
     (case current_user req of
        None \<Rightarrow> (Inr unauthorized, s)
      | Some u \<Rightarrow>
          run_on_tv T cfg u (volume_down T)
            ''Volume down command sent successfully'' ''Failed to send volume down command'' s)"

definition api_volume_mute :: "transport \<Rightarrow> config \<Rightarrow> request \<Rightarrow> state \<Rightarrow> (exn + response) \<times> state" where
  "api_volume_mute T cfg req s =
     (case current_user req of
        None \<Rightarrow> (Inr unauthorized, s)
      | Some u \<Rightarrow>
          run_on_tv T cfg u (mute T)
            ''Mute command sent successfully'' ''Failed to send mute command'' s)"

definition api_launch_app :: "transport \<Rightarrow> config \<Rightarrow> request \<Rightarrow> state \<Rightarrow> (exn + response) \<times> state" where
  "api_launch_app T cfg req s =
     (case current_user req of
        None \<Rightarrow> (Inr unauthorized, s)
      | Some u \<Rightarrow>
          (case get_json req of
             None \<Rightarrow> (Inr (Json 400 ''error'' ''Missing package_name parameter''), s)
           | Some data \<Rightarrow>
               (case (if data = [] then None else map_of data ''package_name'') of
                  None \<Rightarrow> (Inr (Json 400 ''error'' ''Missing package_name parameter''), s)
                | Some v \<Rightarrow>
                    (let package_name = py_str v in
                     run_on_tv T cfg u (launch_app T package_name)
                       (''App '' @ package_name @ '' launched successfully'')
                       (''Failed to launch app '' @ package_name) s))))"

definition valid_directions :: "string list" where
  "valid_directions = [''up'', ''down'', ''left'', ''right'', ''ok'', ''back'', ''home'']"

definition invalid_direction :: response where
  "invalid_direction =
     Json 400 ''error'' ''Invalid direction. Must be one of: up, down, left, right, ok, back, home''"

definition api_navigate :: "transport \<Rightarrow> config \<Rightarrow> request \<Rightarrow> state \<Rightarrow> (exn + response) \<times> state" where
  "api_navigate T cfg req s =
     (case current_user req of
        None \<Rightarrow> (Inr unauthorized, s)
      | Some u \<Rightarrow>
          (case get_json req of
             None \<Rightarrow> (Inr (Json 400 ''error'' ''Missing direction parameter''), s)
           | Some data \<Rightarrow>
               (case (if data = [] then None else map_of data ''direction'') of
                  None \<Rightarrow> (Inr (Json 400 ''error'' ''Missing direction parameter''), s)
                | Some (JOther v) \<Rightarrow> (Inr invalid_direction, s)
                | Some (JString direction) \<Rightarrow>
                    if direction \<notin> set valid_directions then (Inr invalid_direction, s)
                    else run_on_tv T cfg u (navigate T direction)
                           (''Navigate '' @ direction @ '' command sent successfully'')
                           (''Failed to send navigate '' @ direction @ '' command'') s)))"

section \<open>The authentication callback\<close>

text \<open>
  \<^verbatim>\<open>callback\<close> after \<^verbatim>\<open>oauth.google.authorize_access_token()\<close> has returned: its argument is
  \<^verbatim>\<open>token.get('userinfo')\<close>, \<^verbatim>\<open>None\<close> or a dictionary of claims.  The state it changes is the
  Flask session entry \<^verbatim>\<open>session['user_info']\<close> and the user Flask-Login has logged in.  A
  missing key raises \<^verbatim>\<open>KeyError\<close>, which nothing in the handler catches.
\<close>

type_synonym userinfo = "(string \<times> string) list"

record auth_session =
  session_user_info :: "userinfo option"
  logged_in :: "user option"

definition KeyError :: exn where
  "KeyError = PyException ''KeyError''"

definition callback ::
  "config \<Rightarrow> userinfo option \<Rightarrow> auth_session \<Rightarrow> (exn + response) \<times> auth_session" where
  "callback cfg user_info a =
     (case user_info of
        None \<Rightarrow> (Inr (Json 400 ''error'' ''Failed to get user info''), a)
      | Some ui \<Rightarrow>
          if ui = [] then (Inr (Json 400 ''error'' ''Failed to get user info''), a)
          else
            (case (if ALLOWED_EMAILS cfg = [] then Inr False
                   else (case map_of ui ''email'' of
                           None \<Rightarrow> Inl KeyError
                         | Some e \<Rightarrow> Inr (e \<notin> set (ALLOWED_EMAILS cfg)))) of
               Inl e \<Rightarrow> (Inl e, a)
             | Inr True \<Rightarrow> (Inr (Json 403 ''error'' ''Unauthorized email address''), a)
             | Inr False \<Rightarrow>
                 (let a1 = a\<lparr>session_user_info := Some ui\<rparr> in
                  case (map_of ui ''sub'', map_of ui ''email'', map_of ui ''name'') of
                    (Some sub, Some em, Some nm) \<Rightarrow>
                      (Inr (Redirect ''/''),
                       a1\<lparr>logged_in := Some \<lparr>user_id = sub, email = em, name = nm,
                                              picture = (case map_of ui ''picture'' of
                                                           None \<Rightarrow> [] | Some p \<Rightarrow> p)\<rparr>\<rparr>)
                  | _ \<Rightarrow> (Inl KeyError, a1))))"

section \<open>Vocabulary of the properties\<close>

text \<open>
  What a history holds: the instructions of its shell calls and the endpoints of its
  connect calls, in order; and the calls a method added to the history it was given.
\<close>

fun writes :: "event list \<Rightarrow> string list" where
  "writes [] = []"
| "writes (Shell dev cmd # es) = cmd # writes es"
| "writes (Connect h p # es) = writes es"
| "writes (GetSerialNo dev # es) = writes es"

fun connects :: "event list \<Rightarrow> (string \<times> int) list" where
  "connects [] = []"
| "connects (Connect h p # es) = (h, p) # connects es"
| "connects (Shell dev cmd # es) = connects es"
| "connects (GetSerialNo dev # es) = connects es"

definition new_events :: "event list \<Rightarrow> event list \<Rightarrow> event list" where
  "new_events tr tr1 = drop (length tr) tr1"

text \<open>
  The six command methods of \<^verbatim>\<open>TVController\<close>, named so that a property can speak of all of
  them; a command is recognized when \<^verbatim>\<open>navigate\<close> finds its direction in \<^verbatim>\<open>keycode_map\<close>.
  \<open>instruction\<close> is the text of the shell call the method builds for the command.
\<close>

datatype command = Power | VolumeUp | VolumeDown | Mute | Navigate string | LaunchApp string

fun run_command :: "transport \<Rightarrow> command \<Rightarrow> TVController \<Rightarrow> event list \<Rightarrow> bool result" where
  "run_command T Power = power_cmd T"
| "run_command T VolumeUp = volume_up T"
| "run_command T VolumeDown = volume_down T"
| "run_command T Mute = mute T"
| "run_command T (Navigate direction) = navigate T direction"
| "run_command T (LaunchApp package_name) = launch_app T package_name"

fun recognized :: "command \<Rightarrow> bool" where
  "recognized (Navigate direction) = (map_of keycode_map direction \<noteq> None)"
| "recognized cmd = True"

fun instruction :: "command \<Rightarrow> string" where
  "instruction Power = ''input keyevent '' @ str_int KEYCODE_POWER"
| "instruction VolumeUp = ''input keyevent '' @ str_int KEYCODE_VOLUME_UP"
| "instruction VolumeDown = ''input keyevent '' @ str_int KEYCODE_VOLUME_DOWN"
| "instruction Mute = ''input keyevent '' @ str_int KEYCODE_MUTE"
| "instruction (Navigate direction) =
     (case map_of keycode_map direction of
        None \<Rightarrow> []
      | Some keycode \<Rightarrow> ''input keyevent '' @ str_int keycode)"
| "instruction (LaunchApp package_name) =
     ''monkey -p '' @ package_name @ '' -c android.intent.category.LAUNCHER 1''"

text \<open>
  The body that \<^verbatim>\<open>send_keyevent\<close> and \<^verbatim>\<open>launch_app\<close> have in common, with the instruction as
  a parameter; the proofs show that both methods are instances of it.
\<close>

definition shell_after_ensure ::
  "transport \<Rightarrow> string \<Rightarrow> TVController \<Rightarrow> event list \<Rightarrow> bool result" where
  "shell_after_ensure T cmd self tr =
     (case ensure_connected T self tr of
        (Inl e, self1, tr1) \<Rightarrow> (Inl e, self1, tr1)
      | (Inr ok, self1, tr1) \<Rightarrow>
          if \<not> ok then (Inr False, self1, tr1)
          else (case device self1 of
                  None \<Rightarrow> (Inr False, self1, tr1)
                | Some dev \<Rightarrow>
                    (case shell T tr1 dev cmd of
                       Returns out \<Rightarrow> (Inr True, self1, tr1 @ [Shell dev cmd])
                     | Raises e \<Rightarrow> (except_Exception e False, self1, tr1 @ [Shell dev cmd]))))"

text \<open>
  The shell calls \<^verbatim>\<open>ensure_connected\<close> makes: the probe when the controller holds a device
  handle, nothing otherwise.
\<close>

definition probe_writes :: "TVController \<Rightarrow> string list" where
  "probe_writes self = (if device self = None then [] else [''echo test''])"

text \<open>
  A transport that raises instances of \<^verbatim>\<open>Exception\<close> only.
\<close>

definition raises_only_Exception :: "transport \<Rightarrow> bool" where
  "raises_only_Exception T =
     ((\<forall>tr h p e. client_connect T tr h p = Raises e \<longrightarrow> is_Exception e) \<and>
      (\<forall>tr dev e. get_serial_no T tr dev = Raises e \<longrightarrow> is_Exception e) \<and>
      (\<forall>tr dev cmd e. shell T tr dev cmd = Raises e \<longrightarrow> is_Exception e))"

text \<open>
  The device is unreachable when every \<^verbatim>\<open>connect()\<close> returns \<^verbatim>\<open>False\<close> and every probe raises.
  A user's cache entry is valid when its controller passes \<^verbatim>\<open>ensure_connected\<close> now.
\<close>

definition unreachable :: "transport \<Rightarrow> bool" where
  "unreachable T =
     ((\<forall>self tr. fst (connect T self tr) = Inr False) \<and>
      (\<forall>tr dev. \<exists>e. shell T tr dev ''echo test'' = Raises e))"

definition valid_entry :: "transport \<Rightarrow> state \<Rightarrow> string \<Rightarrow> bool" where
  "valid_entry T s uid =
     (case tv_controller_cache s uid of
        None \<Rightarrow> False
      | Some r \<Rightarrow> fst (ensure_connected T (heap s r) (trace s)) = Inr True)"

text \<open>
  The calls of a first dispatch: one connect to the configured endpoint with its serial
  number check, the probe, and the instruction \<open>i\<close>, on the handle \<open>d\<close> the connect returned.
\<close>

definition first_dispatch :: "config \<Rightarrow> handle \<Rightarrow> string \<Rightarrow> event list" where
  "first_dispatch cfg d i =
     [Connect (ANDROID_TV_IP cfg) (ANDROID_TV_PORT cfg), GetSerialNo d,
      Shell d ''echo test'', Shell d i]"

text \<open>
  A state is well formed when every cached reference has been allocated: as Python never
  hands out the identity of a live object twice, a new controller is then a new object.
\<close>

definition wf_state :: "state \<Rightarrow> bool" where
  "wf_state s = (\<forall>u r. tv_controller_cache s u = Some r \<longrightarrow> r < next_ref s)"

text \<open>
  The six command routes under one name, and a run of the server over a list of requests,
  each request going to its route.
\<close>

datatype route = PowerRoute | VolumeUpRoute | VolumeDownRoute | VolumeMuteRoute
  | LaunchAppRoute | NavigateRoute

fun api :: "transport \<Rightarrow> config \<Rightarrow> route \<Rightarrow> request \<Rightarrow> state \<Rightarrow> (exn + response) \<times> state" where
  "api T cfg PowerRoute = api_power T cfg"
| "api T cfg VolumeUpRoute = api_volume_up T cfg"
| "api T cfg VolumeDownRoute = api_volume_down T cfg"
| "api T cfg VolumeMuteRoute = api_volume_mute T cfg"
| "api T cfg LaunchAppRoute = api_launch_app T cfg"
| "api T cfg NavigateRoute = api_navigate T cfg"

fun serve :: "transport \<Rightarrow> config \<Rightarrow> (route \<times> request) list \<Rightarrow> state \<Rightarrow> state" where
  "serve T cfg [] s = s"
| "serve T cfg ((rt, req) # reqs) s = serve T cfg reqs (snd (api T cfg rt req s))"

section \<open>Sample inputs\<close>

text \<open>
  A television that answers every call, one that answers none, one whose old handle
  \<open>0\<close> is dead while a new connection (handle \<open>1\<close>) works, one that answers the probe and
  fails every instruction, and one that answers the probe while every other call is cut
  short by \<^verbatim>\<open>KeyboardInterrupt\<close>.
\<close>

definition T_live :: transport where
  "T_live =
     \<lparr>client_connect = (\<lambda>tr h p. Returns (Some 1)),
      get_serial_no = (\<lambda>tr dev. Returns (Some ''192.168.1.100:5555'')),
      shell = (\<lambda>tr dev cmd. Returns [])\<rparr>"

definition T_down :: transport where
  "T_down =
     \<lparr>client_connect = (\<lambda>tr h p. Raises (PyException ''RuntimeError'')),
      get_serial_no = (\<lambda>tr dev. Raises (PyException ''RuntimeError'')),
      shell = (\<lambda>tr dev cmd. Raises (PyException ''RuntimeError''))\<rparr>"

definition T_stale :: transport where
  "T_stale =
     \<lparr>client_connect = (\<lambda>tr h p. Returns (Some 1)),
      get_serial_no = (\<lambda>tr dev. Returns (Some ''192.168.1.100:5555'')),
      shell = (\<lambda>tr dev cmd. if dev = 0 then Raises (PyException ''RuntimeError'') else Returns [])\<rparr>"

definition T_flaky :: transport where
  "T_flaky =
     \<lparr>client_connect = (\<lambda>tr h p. Returns (Some 1)),
      get_serial_no = (\<lambda>tr dev. Returns (Some ''192.168.1.100:5555'')),
      shell = (\<lambda>tr dev cmd. if cmd = ''echo test'' then Returns []
                              else Raises (PyException ''RuntimeError''))\<rparr>"

definition T_interrupt :: transport where
  "T_interrupt =
     \<lparr>client_connect = (\<lambda>tr h p. Raises (PyBaseException ''KeyboardInterrupt'')),
      get_serial_no = (\<lambda>tr dev. Raises (PyBaseException ''KeyboardInterrupt'')),
      shell = (\<lambda>tr dev cmd. if cmd = ''echo test'' then Returns []
                              else Raises (PyBaseException ''KeyboardInterrupt''))\<rparr>"

definition tv0 :: TVController where
  "tv0 = \<lparr>host = ''192.168.1.100'', port = 5555, device = Some 0\<rparr>"

definition cfg0 :: config where
  "cfg0 = \<lparr>ANDROID_TV_IP = ''192.168.1.100'', ANDROID_TV_PORT = 5555,
           ALLOWED_EMAILS = [''bob@example.com'']\<rparr>"

definition alice :: user where
  "alice = \<lparr>user_id = ''42'', email = ''alice@example.com'', name = ''Alice'', picture = []\<rparr>"

definition alice_info :: userinfo where
  "alice_info = [(''sub'', ''42''), (''email'', ''alice@example.com''), (''name'', ''Alice'')]"

definition a0 :: auth_session where
  "a0 = \<lparr>session_user_info = None, logged_in = None\<rparr>"

definition s0 :: state where
  "s0 = \<lparr>heap = (\<lambda>r. TVController_init [] 0), next_ref = 0,
         tv_controller_cache = Map.empty, trace = []\<rparr>"

definition s1 :: state where
  "s1 = \<lparr>heap = (\<lambda>r. tv0), next_ref = 1,
         tv_controller_cache = [''42'' \<mapsto> 0], trace = []\<rparr>"

definition req_power :: request where
  "req_power = \<lparr>current_user = Some alice, get_json = None\<rparr>"

definition req_navigate :: "string \<Rightarrow> request" where
  "req_navigate direction =
     \<lparr>current_user = Some alice, get_json = Some [(''direction'', JString direction)]\<rparr>"

definition req_launch :: "string \<Rightarrow> request" where
  "req_launch package_name =
     \<lparr>current_user = Some alice, get_json = Some [(''package_name'', JString package_name)]\<rparr>"

section \<open>Facts about the model\<close>

lemma except_False_cases:
  "except_Exception e False = Inr False \<or>
   (\<exists>cls. except_Exception e False = Inl (PyBaseException cls))"
  by (cases e) (simp_all add: except_Exception_def)

lemma except_False_not_True: "except_Exception e False \<noteq> Inr True"
  by (cases e) (simp_all add: except_Exception_def)

lemma except_is_Exception: "is_Exception e \<Longrightarrow> except_Exception e v = Inr v"
  by (simp add: except_Exception_def)

lemma connect_returns:
  assumes "raises_only_Exception T"
  shows "\<exists>b. fst (connect T self tr) = Inr b"
proof (cases "client_connect T tr (host self) (port self)")
  case (Raises e)
  with assms have "is_Exception e" unfolding raises_only_Exception_def by blast
  with Raises show ?thesis by (auto simp: connect_def except_is_Exception)
next
  case (Returns h)
  show ?thesis
  proof (cases h)
    case None
    with Returns show ?thesis by (auto simp: connect_def)
  next
    case (Some dev)
    show ?thesis
    proof (cases "get_serial_no T (tr @ [Connect (host self) (port self)]) dev")
      case (Raises e)
      with assms have "is_Exception e" unfolding raises_only_Exception_def by blast
      with Raises Some Returns show ?thesis by (auto simp: connect_def except_is_Exception)
    next
      case (Returns serial)
      with Some \<open>client_connect T tr (host self) (port self) = Returns h\<close> show ?thesis
        by (auto simp: connect_def Let_def)
    qed
  qed
qed

lemma ensure_connected_returns:
  assumes "raises_only_Exception T"
  shows "\<exists>b. fst (ensure_connected T self tr) = Inr b"
  using connect_returns [OF assms]
  by (auto simp: ensure_connected_def split: outcome.splits option.splits)

lemma shell_after_ensure_returns:
  assumes "raises_only_Exception T"
  shows "\<exists>b. fst (shell_after_ensure T cmd self tr) = Inr b"
proof -
  obtain res self1 tr1 where e: "ensure_connected T self tr = (res, self1, tr1)"
    by (cases "ensure_connected T self tr")
  with ensure_connected_returns [OF assms, of self tr] obtain b where b: "res = Inr b" by auto
  show ?thesis
  proof (cases "b \<and> device self1 \<noteq> None")
    case False
    with e b show ?thesis by (auto simp: shell_after_ensure_def)
  next
    case True
    then obtain dev where d: "device self1 = Some dev" by auto
    show ?thesis
    proof (cases "shell T tr1 dev cmd")
      case (Raises x)
      with assms have "is_Exception x" unfolding raises_only_Exception_def by blast
      with Raises e b d True show ?thesis
        by (auto simp: shell_after_ensure_def except_is_Exception)
    next
      case (Returns out)
      with e b d True show ?thesis by (auto simp: shell_after_ensure_def)
    qed
  qed
qed

lemma send_keyevent_eq:
  "send_keyevent T keycode self tr =
     shell_after_ensure T (''input keyevent '' @ str_int keycode) self tr"
  unfolding send_keyevent_def shell_after_ensure_def Let_def by (rule refl)

lemma launch_app_eq:
  "launch_app T package_name self tr =
     shell_after_ensure T
       (''monkey -p '' @ package_name @ '' -c android.intent.category.LAUNCHER 1'') self tr"
  unfolding launch_app_def shell_after_ensure_def Let_def by (rule refl)

lemma run_command_eq:
  "recognized cmd \<Longrightarrow>
     run_command T cmd self tr = shell_after_ensure T (instruction cmd) self tr"
  by (cases cmd)
     (auto simp: power_cmd_def volume_up_def volume_down_def mute_def navigate_def
        send_keyevent_eq launch_app_eq)

lemma shell_after_ensure_write:
  assumes "ensure_connected T self tr = (Inr True, self1, tr1)"
  shows "\<exists>dev. device self1 = Some dev \<and>
           snd (snd (shell_after_ensure T cmd self tr)) = tr1 @ [Shell dev cmd]"
proof -
  from assms have "device self1 \<noteq> None"
    by (auto simp: ensure_connected_def connect_def Let_def except_Exception_def
        split: option.splits outcome.splits if_splits)
  then obtain dev where "device self1 = Some dev" by auto
  with assms show ?thesis
    by (auto simp: shell_after_ensure_def split: outcome.splits)
qed

lemma ensure_live: "ensure_connected T_live tv0 [] = (Inr True, tv0, [Shell 0 ''echo test''])"
  by (simp add: ensure_connected_def T_live_def tv0_def)

lemma split_sep_nonempty: "split_sep sep s \<noteq> []"
  by (induction s) (auto split: list.splits)

lemma writes_append: "writes (xs @ ys) = writes xs @ writes ys"
  by (induction xs rule: writes.induct) simp_all

lemma connects_append: "connects (xs @ ys) = connects xs @ connects ys"
  by (induction xs rule: connects.induct) simp_all

lemma new_events_append: "new_events tr (tr @ ev) = ev"
  by (simp add: new_events_def)

lemma connect_shape:
  "\<exists>res self1 ev.
     connect T self tr = (res, self1, tr @ Connect (host self) (port self) # ev) \<and>
     writes ev = [] \<and> connects ev = [] \<and>
     (if res = Inr True then device self1 \<noteq> None
      else self1 = self \<and> (res = Inr False \<or> (\<exists>cls. res = Inl (PyBaseException cls))))"
proof (cases "client_connect T tr (host self) (port self)")
  case (Raises e)
  then have "connect T self tr =
               (except_Exception e False, self, tr @ Connect (host self) (port self) # [])"
    by (simp add: connect_def)
  moreover have "writes [] = []" "connects [] = []" by simp_all
  moreover have "if except_Exception e False = Inr True then device self \<noteq> None
      else self = self \<and> (except_Exception e False = Inr False \<or>
             (\<exists>cls. except_Exception e False = Inl (PyBaseException cls)))"
    using except_False_cases [of e] except_False_not_True [of e] by simp
  ultimately show ?thesis by blast
next
  case (Returns h)
  show ?thesis
  proof (cases h)
    case None
    with Returns have "connect T self tr =
               (Inr False, self, tr @ Connect (host self) (port self) # [])"
      by (simp add: connect_def)
    moreover have "writes [] = []" "connects [] = []" by simp_all
    ultimately show ?thesis by fastforce
  next
    case (Some dev)
    let ?ev = "[GetSerialNo dev]"
    have w: "writes ?ev = []" "connects ?ev = []" by simp_all
    show ?thesis
    proof (cases "get_serial_no T (tr @ [Connect (host self) (port self)]) dev")
      case (Raises e)
      with Some Returns have "connect T self tr =
               (except_Exception e False, self, tr @ Connect (host self) (port self) # ?ev)"
        by (simp add: connect_def)
      moreover have "if except_Exception e False = Inr True then device self \<noteq> None
          else self = self \<and> (except_Exception e False = Inr False \<or>
                 (\<exists>cls. except_Exception e False = Inl (PyBaseException cls)))"
        using except_False_cases [of e] except_False_not_True [of e] by simp
      ultimately show ?thesis using w by blast
    next
      case (Returns serial)
      show ?thesis
      proof (cases "truthy_str serial")
        case True
        with Returns Some \<open>client_connect T tr (host self) (port self) = Returns h\<close>
        have "connect T self tr =
               (Inr True, self\<lparr>device := Some dev\<rparr>, tr @ Connect (host self) (port self) # ?ev)"
          by (simp add: connect_def)
        with w show ?thesis by fastforce
      next
        case False
        with Returns Some \<open>client_connect T tr (host self) (port self) = Returns h\<close>
        have "connect T self tr =
               (Inr False, self, tr @ Connect (host self) (port self) # ?ev)"
          by (simp add: connect_def)
        with w show ?thesis by fastforce
      qed
    qed
  qed
qed

lemma ensure_connected_shape:
  "\<exists>res self1 ev. ensure_connected T self tr = (res, self1, tr @ ev) \<and>
     writes ev = probe_writes self \<and>
     (if res = Inr True then device self1 \<noteq> None
      else res = Inr False \<or> (\<exists>cls. res = Inl (PyBaseException cls)))"
proof (cases "device self")
  case None
  from connect_shape [of T self tr]
  obtain res self1 ev where
    c: "connect T self tr = (res, self1, tr @ Connect (host self) (port self) # ev)"
    and w: "writes ev = []"
    and d: "if res = Inr True then device self1 \<noteq> None
            else self1 = self \<and> (res = Inr False \<or> (\<exists>cls. res = Inl (PyBaseException cls)))"
    by blast
  have "ensure_connected T self tr = (res, self1, tr @ (Connect (host self) (port self) # ev))"
    using None c by (simp add: ensure_connected_def)
  moreover have "writes (Connect (host self) (port self) # ev) = probe_writes self"
    using None w by (simp add: probe_writes_def)
  moreover have "if res = Inr True then device self1 \<noteq> None
      else res = Inr False \<or> (\<exists>cls. res = Inl (PyBaseException cls))"
    using d by (simp split: if_splits)
  ultimately show ?thesis by blast
next
  case (Some dev)
  show ?thesis
  proof (cases "shell T tr dev ''echo test''")
    case (Returns out)
    with Some have "ensure_connected T self tr = (Inr True, self, tr @ [Shell dev ''echo test''])"
      by (simp add: ensure_connected_def)
    moreover have "writes [Shell dev ''echo test''] = probe_writes self"
      using Some by (simp add: probe_writes_def)
    moreover have "if (Inr True :: exn + bool) = Inr True then device self \<noteq> None
      else (Inr True :: exn + bool) = Inr False \<or>
           (\<exists>cls. (Inr True :: exn + bool) = Inl (PyBaseException cls))"
      using Some by simp
    ultimately show ?thesis by blast
  next
    case (Raises e)
    from connect_shape [of T self "tr @ [Shell dev ''echo test'']"]
    obtain res self1 ev where
      c: "connect T self (tr @ [Shell dev ''echo test'']) =
            (res, self1, (tr @ [Shell dev ''echo test'']) @ Connect (host self) (port self) # ev)"
      and w: "writes ev = []"
      and d: "if res = Inr True then device self1 \<noteq> None
              else self1 = self \<and> (res = Inr False \<or> (\<exists>cls. res = Inl (PyBaseException cls)))"
      by blast
    have "ensure_connected T self tr =
            (res, self1, tr @ (Shell dev ''echo test'' # Connect (host self) (port self) # ev))"
      using Some Raises c by (simp add: ensure_connected_def)
    moreover have "writes (Shell dev ''echo test'' # Connect (host self) (port self) # ev) =
                     probe_writes self"
      using Some w by (simp add: probe_writes_def)
    moreover have "if res = Inr True then device self1 \<noteq> None
        else res = Inr False \<or> (\<exists>cls. res = Inl (PyBaseException cls))"
      using d by (simp split: if_splits)
    ultimately show ?thesis by blast
  qed
qed

lemma shell_after_ensure_shape:
  assumes "shell_after_ensure T cmd self tr = (res, self2, tr2)"
  shows "\<exists>ev. tr2 = tr @ ev \<and>
     (if res = Inr True
      then writes ev = probe_writes self @ [cmd] \<and> (\<exists>dev. last tr2 = Shell dev cmd)
      else (res = Inr False \<or> (\<exists>cls. res = Inl (PyBaseException cls))) \<and>
           (writes ev = probe_writes self \<or>
            writes ev = probe_writes self @ [cmd] \<and>
            (\<exists>dev e. last tr2 = Shell dev cmd \<and> shell T (butlast tr2) dev cmd = Raises e)))"
proof -
  from ensure_connected_shape [of T self tr]
  obtain res0 self1 ev where
    e: "ensure_connected T self tr = (res0, self1, tr @ ev)"
    and w: "writes ev = probe_writes self"
    and d: "if res0 = Inr True then device self1 \<noteq> None
            else res0 = Inr False \<or> (\<exists>cls. res0 = Inl (PyBaseException cls))"
    by blast
  show ?thesis
  proof (cases "res0 = Inr True")
    case False
    with d have f: "res0 = Inr False \<or> (\<exists>cls. res0 = Inl (PyBaseException cls))" by simp
    with assms e have "res = res0" "tr2 = tr @ ev"
      by (auto simp: shell_after_ensure_def)
    with w f False show ?thesis by auto
  next
    case True
    with d obtain dev where dev: "device self1 = Some dev" by auto
    show ?thesis
    proof (cases "shell T (tr @ ev) dev cmd")
      case (Returns out)
      with assms e True dev have "res = Inr True" "tr2 = tr @ (ev @ [Shell dev cmd])"
        by (auto simp: shell_after_ensure_def)
      with w show ?thesis by (auto simp: writes_append)
    next
      case (Raises x)
      with assms e True dev have r: "res = except_Exception x False"
        "tr2 = tr @ (ev @ [Shell dev cmd])"
        by (auto simp: shell_after_ensure_def)
      have b: "butlast tr2 = tr @ ev" using r by (simp add: butlast_append)
      have n: "res \<noteq> Inr True" using r except_False_not_True [of x] by simp
      have f: "res = Inr False \<or> (\<exists>cls. res = Inl (PyBaseException cls))"
        using r except_False_cases [of x] by simp
      have "writes (ev @ [Shell dev cmd]) = probe_writes self @ [cmd]"
        using w by (simp add: writes_append)
      moreover have "last tr2 = Shell dev cmd" using r by simp
      moreover have "shell T (butlast tr2) dev cmd = Raises x" using b Raises by simp
      ultimately show ?thesis using r(2) n f by auto
    qed
  qed
qed

lemma power_live:
  "run_command T_live Power tv0 [] =
     (Inr True, tv0, [Shell 0 ''echo test'', Shell 0 ''input keyevent 26''])"
  by (simp add: power_cmd_def send_keyevent_def ensure_connected_def T_live_def tv0_def
      KEYCODE_POWER_def str_int_def digit_char_def)

lemma power_down:
  "run_command T_down Power tv0 [] =
     (Inr False, tv0, [Shell 0 ''echo test'', Connect ''192.168.1.100'' 5555])"
  by (simp add: power_cmd_def send_keyevent_def ensure_connected_def connect_def T_down_def tv0_def
      KEYCODE_POWER_def str_int_def digit_char_def except_Exception_def)

lemma power_stale:
  "run_command T_stale Power tv0 [] =
     (Inr True, tv0\<lparr>device := Some 1\<rparr>,
      [Shell 0 ''echo test'', Connect ''192.168.1.100'' 5555, GetSerialNo 1,
       Shell 1 ''input keyevent 26''])"
  by (simp add: power_cmd_def send_keyevent_def ensure_connected_def connect_def T_stale_def
      tv0_def KEYCODE_POWER_def str_int_def digit_char_def)

lemma run_command_fun_eq:
  "recognized cmd \<Longrightarrow> run_command T cmd = shell_after_ensure T (instruction cmd)"
  by (intro ext) (rule run_command_eq)

lemma fst_call_method: "fst (call_method m r s) = fst (m (heap s r) (trace s))"
  by (simp add: call_method_def split: prod.splits)

lemma trace_call_method: "trace (snd (call_method m r s)) = snd (snd (m (heap s r) (trace s)))"
  by (simp add: call_method_def split: prod.splits)

lemma cache_call_method:
  "tv_controller_cache (snd (call_method m r s)) = tv_controller_cache s"
  by (simp add: call_method_def split: prod.splits)

lemma next_ref_call_method: "next_ref (snd (call_method m r s)) = next_ref s"
  by (simp add: call_method_def split: prod.splits)

lemma run_on_tv_first:
  assumes "tv_controller_cache s (user_id u) = None"
      and "client_connect T (trace s) (ANDROID_TV_IP cfg) (ANDROID_TV_PORT cfg) = Returns (Some d)"
      and "get_serial_no T (trace s @ [Connect (ANDROID_TV_IP cfg) (ANDROID_TV_PORT cfg)]) d =
             Returns serial"
      and "truthy_str serial"
      and "shell T (trace s @ [Connect (ANDROID_TV_IP cfg) (ANDROID_TV_PORT cfg), GetSerialNo d])
             d ''echo test'' = Returns out"
  shows "trace (snd (run_on_tv T cfg u (shell_after_ensure T i) ok_msg fail_msg s)) =
           trace s @ first_dispatch cfg d i"
proof -
  let ?c = "TVController_init (ANDROID_TV_IP cfg) (ANDROID_TV_PORT cfg)"
  let ?tr1 = "trace s @ [Connect (ANDROID_TV_IP cfg) (ANDROID_TV_PORT cfg), GetSerialNo d]"
  have c: "connect T ?c (trace s) = (Inr True, ?c\<lparr>device := Some d\<rparr>, ?tr1)"
    using assms(2-4) by (simp add: connect_def TVController_init_def)
  let ?s1 = "s\<lparr>heap := (heap s)(next_ref s := ?c\<lparr>device := Some d\<rparr>), next_ref := Suc (next_ref s),
                trace := ?tr1,
                tv_controller_cache := (tv_controller_cache s)(user_id u \<mapsto> next_ref s)\<rparr>"
  have g: "get_tv_controller T cfg (user_id u) s = (Inr (Some (next_ref s)), ?s1)"
    using assms(1) c by (simp add: get_tv_controller_def call_method_def Let_def)
  have e: "ensure_connected T (?c\<lparr>device := Some d\<rparr>) ?tr1 =
             (Inr True, ?c\<lparr>device := Some d\<rparr>, ?tr1 @ [Shell d ''echo test''])"
    using assms(5) by (simp add: ensure_connected_def)
  have m: "snd (snd (shell_after_ensure T i (?c\<lparr>device := Some d\<rparr>) ?tr1)) =
             (?tr1 @ [Shell d ''echo test'']) @ [Shell d i]"
    using shell_after_ensure_write [OF e, of i] by simp
  have "trace (snd (call_method (shell_after_ensure T i) (next_ref s) ?s1)) =
          (?tr1 @ [Shell d ''echo test'']) @ [Shell d i]"
    using m by (simp add: trace_call_method)
  then show ?thesis
    using g by (auto simp: run_on_tv_def first_dispatch_def split: prod.splits sum.splits)
qed

lemma power_cmd_fun: "power_cmd T = shell_after_ensure T (instruction Power)"
  by (intro ext) (simp add: power_cmd_def send_keyevent_eq)

lemma volume_up_fun: "volume_up T = shell_after_ensure T (instruction VolumeUp)"
  by (intro ext) (simp add: volume_up_def send_keyevent_eq)

lemma volume_down_fun: "volume_down T = shell_after_ensure T (instruction VolumeDown)"
  by (intro ext) (simp add: volume_down_def send_keyevent_eq)

lemma mute_fun: "mute T = shell_after_ensure T (instruction Mute)"
  by (intro ext) (simp add: mute_def send_keyevent_eq)

lemma launch_app_fun: "launch_app T p = shell_after_ensure T (instruction (LaunchApp p))"
  by (intro ext) (simp add: launch_app_eq)

lemma valid_direction_recognized:
  "direction \<in> set valid_directions \<Longrightarrow> recognized (Navigate direction)"
  by (auto simp: valid_directions_def keycode_map_def)

lemma navigate_fun:
  "direction \<in> set valid_directions \<Longrightarrow>
     navigate T direction = shell_after_ensure T (instruction (Navigate direction))"
  using run_command_eq [OF valid_direction_recognized, of direction T]
  by (intro ext) simp

lemma unreachable_ensure:
  assumes "unreachable T"
  shows "fst (ensure_connected T self tr) = Inr False"
proof (cases "device self")
  case None
  with assms show ?thesis by (simp add: ensure_connected_def unreachable_def)
next
  case (Some dev)
  from assms obtain e where "shell T tr dev ''echo test'' = Raises e"
    unfolding unreachable_def by blast
  with Some assms show ?thesis by (simp add: ensure_connected_def unreachable_def)
qed

lemma unreachable_shell_after:
  assumes "unreachable T"
  shows "fst (shell_after_ensure T cmd self tr) = Inr False"
  using unreachable_ensure [OF assms, of self tr]
  by (auto simp: shell_after_ensure_def split: prod.splits sum.splits)

lemma get_tv_controller_cached:
  "tv_controller_cache s uid = Some r \<Longrightarrow> get_tv_controller T cfg uid s = (Inr (Some r), s)"
  by (simp add: get_tv_controller_def)

lemma get_tv_controller_unreachable:
  assumes "unreachable T" and "tv_controller_cache s uid = None"
  shows "fst (get_tv_controller T cfg uid s) = Inr None \<and>
         tv_controller_cache (snd (get_tv_controller T cfg uid s)) = tv_controller_cache s"
proof -
  let ?s0 = "s\<lparr>heap := (heap s)(next_ref s :=
                   TVController_init (ANDROID_TV_IP cfg) (ANDROID_TV_PORT cfg)),
                next_ref := Suc (next_ref s)\<rparr>"
  have f: "fst (call_method (connect T) (next_ref s) ?s0) = Inr False"
    using assms(1) by (simp add: fst_call_method unreachable_def)
  have c: "tv_controller_cache (snd (call_method (connect T) (next_ref s) ?s0)) =
             tv_controller_cache s"
    by (simp add: cache_call_method)
  obtain res s1 where p: "call_method (connect T) (next_ref s) ?s0 = (res, s1)"
    by (cases "call_method (connect T) (next_ref s) ?s0")
  with f c have "res = Inr False" "tv_controller_cache s1 = tv_controller_cache s" by simp_all
  with assms(2) p show ?thesis by (simp add: get_tv_controller_def Let_def)
qed

lemma unreachable_T_down: "unreachable T_down"
  by (simp add: unreachable_def connect_def T_down_def except_Exception_def)

lemma get_tv_controller_new:
  assumes "tv_controller_cache s uid = None"
  shows "\<exists>s1 res. tv_controller_cache s1 = tv_controller_cache s \<and>
           next_ref s1 = Suc (next_ref s) \<and>
           (\<forall>r. r \<noteq> next_ref s \<longrightarrow> heap s1 r = heap s r) \<and>
           get_tv_controller T cfg uid s =
             (if fst (connect T (TVController_init (ANDROID_TV_IP cfg) (ANDROID_TV_PORT cfg))
                        (trace s)) = Inr True
              then (Inr (Some (next_ref s)),
                    s1\<lparr>tv_controller_cache := (tv_controller_cache s)(uid \<mapsto> next_ref s)\<rparr>)
              else (res, s1))"
proof -
  let ?c = "TVController_init (ANDROID_TV_IP cfg) (ANDROID_TV_PORT cfg)"
  obtain res c1 tr1 where c: "connect T ?c (trace s) = (res, c1, tr1)"
    by (cases "connect T ?c (trace s)")
  let ?s1 = "s\<lparr>heap := (heap s)(next_ref s := c1), next_ref := Suc (next_ref s), trace := tr1\<rparr>"
  let ?res = "case res of Inl e \<Rightarrow> Inl e | Inr ok \<Rightarrow> Inr None"
  have "get_tv_controller T cfg uid s =
          (if fst (connect T ?c (trace s)) = Inr True
           then (Inr (Some (next_ref s)),
                 ?s1\<lparr>tv_controller_cache := (tv_controller_cache s)(uid \<mapsto> next_ref s)\<rparr>)
           else (?res, ?s1))"
    using assms c
    by (cases res) (simp_all add: get_tv_controller_def call_method_def Let_def)
  moreover have "tv_controller_cache ?s1 = tv_controller_cache s" by simp
  moreover have "next_ref ?s1 = Suc (next_ref s)" by simp
  moreover have "\<forall>r. r \<noteq> next_ref s \<longrightarrow> heap ?s1 r = heap s r" by simp
  ultimately show ?thesis by blast
qed







lemma get_tv_controller_wf:
  assumes "wf_state s"
  shows "wf_state (snd (get_tv_controller T cfg uid s))"
proof (cases "tv_controller_cache s uid")
  case None
  from get_tv_controller_new [OF None, of T cfg] obtain s1 res where
    "tv_controller_cache s1 = tv_controller_cache s" "next_ref s1 = Suc (next_ref s)"
    "get_tv_controller T cfg uid s =
             (if fst (connect T (TVController_init (ANDROID_TV_IP cfg) (ANDROID_TV_PORT cfg))
                        (trace s)) = Inr True
              then (Inr (Some (next_ref s)),
                    s1\<lparr>tv_controller_cache := (tv_controller_cache s)(uid \<mapsto> next_ref s)\<rparr>)
              else (res, s1))"
    by blast
  with assms show ?thesis by (auto simp: wf_state_def less_Suc_eq split: if_splits)
next
  case (Some r)
  with assms show ?thesis by (simp add: get_tv_controller_cached)
qed



lemma wf_s0: "wf_state s0"
  by (simp add: wf_state_def s0_def)

lemma call_method_wf: "wf_state s \<Longrightarrow> wf_state (snd (call_method m r s))"
  by (simp add: wf_state_def cache_call_method next_ref_call_method)

lemma run_on_tv_wf:
  assumes "wf_state s"
  shows "wf_state (snd (run_on_tv T cfg usr m ok_msg fail_msg s))"
proof -
  obtain res s1 where g: "get_tv_controller T cfg (user_id usr) s = (res, s1)"
    by (cases "get_tv_controller T cfg (user_id usr) s")
  with get_tv_controller_wf [OF assms, of T cfg "user_id usr"] have k: "wf_state s1" by simp
  have c: "call_method m r2 s1 = (x, s2) \<Longrightarrow> wf_state s2" for r2 x s2
    using call_method_wf [OF k, of m r2] by simp
  from g k show ?thesis
    by (auto simp: run_on_tv_def dest: c split: sum.splits option.splits prod.splits)
qed

lemma api_wf:
  assumes "wf_state s"
  shows "wf_state (snd (api T cfg rt req s))"
  using assms run_on_tv_wf [OF assms]
  by (cases rt)
     (auto simp: api_power_def api_volume_up_def api_volume_down_def api_volume_mute_def
        api_launch_app_def api_navigate_def Let_def
        split: option.splits jvalue.splits if_splits)

lemma serve_wf: "wf_state s \<Longrightarrow> wf_state (serve T cfg reqs s)"
proof (induction reqs arbitrary: s)
  case Nil
  then show ?case by simp
next
  case (Cons q reqs)
  obtain rt req where q: "q = (rt, req)" by (cases q)
  from Cons.prems have "wf_state (snd (api T cfg rt req s))" by (rule api_wf)
  then have "wf_state (serve T cfg reqs (snd (api T cfg rt req s)))" by (rule Cons.IH)
  with q show ?case by simp
qed

lemma reachable_wf: "wf_state (serve T cfg reqs s0)"
  using wf_s0 by (rule serve_wf)

section \<open>The allow-list\<close>

text \<open>
  \<^bold>\<open>C3\<close> (the code fails the claim).  The claim: with \<^verbatim>\<open>ALLOWED_EMAILS\<close> unset or empty, the
  callback admits every authenticated identity.  The guard
  \<^verbatim>\<open>if Config.ALLOWED_EMAILS and ...\<close> is written for that, but \<^verbatim>\<open>''.split(',')\<close> is the
  one-element list \<^verbatim>\<open>['']\<close>, which is truthy: with the variable unset the configured list is
  \<^verbatim>\<open>['']\<close>, and the identity \<^verbatim>\<open>alice@example.com\<close> is answered 403 with no session established.
\<close>

theorem unset_allow_list_rejects:
  "Config_ALLOWED_EMAILS Map.empty = [[]] \<and>
   callback (Config Map.empty 5555) (Some alice_info) a0 =
     (Inr (Json 403 ''error'' ''Unauthorized email address''), a0)"
  by (simp add: Config_ALLOWED_EMAILS_def Config_def getenv_def callback_def alice_info_def)

text \<open>
  \<^bold>\<open>C4\<close>.  An identity that the identity provider has authenticated (its claims hold an
  email address) and whose email address is not in a non-empty allow-list is answered
  403, and the session state is left as it was: no \<^verbatim>\<open>session['user_info']\<close>, no logged-in user.
\<close>

theorem allow_list_enforced:
  assumes "ALLOWED_EMAILS cfg \<noteq> []"
      and "map_of ui ''email'' = Some e"
      and "e \<notin> set (ALLOWED_EMAILS cfg)"
  shows "callback cfg (Some ui) a = (Inr (Json 403 ''error'' ''Unauthorized email address''), a)"
proof -
  from assms(2) have "ui \<noteq> []" by auto
  with assms show ?thesis by (simp add: callback_def)
qed

theorem allow_list_enforced_witness:
  "ALLOWED_EMAILS cfg0 \<noteq> [] \<and> map_of alice_info ''email'' = Some ''alice@example.com'' \<and>
   ''alice@example.com'' \<notin> set (ALLOWED_EMAILS cfg0) \<and>
   callback cfg0 (Some alice_info) a0 = (Inr (Json 403 ''error'' ''Unauthorized email address''), a0)"
  using allow_list_enforced [of cfg0 alice_info "''alice@example.com''" a0]
  by (simp add: cfg0_def alice_info_def)

section \<open>Commands and their instructions\<close>

text \<open>
  \<^bold>\<open>C7\<close>.  A direction string outside \<open>up, down, left, right, ok, back, home\<close> is refused
  locally: the method \<^verbatim>\<open>navigate\<close> returns \<^verbatim>\<open>False\<close> with the controller and the history of
  transport calls untouched, and the route answers 400 with the whole process state
  (cache, controllers, history of transport calls) untouched.
\<close>

theorem invalid_direction_is_local:
  assumes "direction \<notin> set valid_directions"
      and "current_user req = Some u"
      and "get_json req = Some data"
      and "map_of data ''direction'' = Some (JString direction)"
  shows "navigate T direction self tr = (Inr False, self, tr) \<and>
         api_navigate T cfg req s = (Inr invalid_direction, s) \<and>
         status_code invalid_direction = 400"
proof -
  from assms(1) have "map_of keycode_map direction = None"
    by (simp add: valid_directions_def keycode_map_def)
  then have 1: "navigate T direction self tr = (Inr False, self, tr)"
    by (simp add: navigate_def)
  from assms(4) have "data \<noteq> []" by auto
  with assms have 2: "api_navigate T cfg req s = (Inr invalid_direction, s)"
    by (simp add: api_navigate_def)
  show ?thesis using 1 2 by (simp add: invalid_direction_def)
qed

theorem invalid_direction_is_local_witness:
  "''sideways'' \<notin> set valid_directions \<and>
   current_user (req_navigate ''sideways'') = Some alice \<and>
   get_json (req_navigate ''sideways'') = Some [(''direction'', JString ''sideways'')] \<and>
   map_of [(''direction'', JString ''sideways'')] ''direction'' = Some (JString ''sideways'') \<and>
   navigate T_live ''sideways'' tv0 [] = (Inr False, tv0, []) \<and>
   api_navigate T_live cfg0 (req_navigate ''sideways'') s1 = (Inr invalid_direction, s1)"
  using invalid_direction_is_local [of "''sideways''" "req_navigate ''sideways''" alice
      "[(''direction'', JString ''sideways'')]" T_live tv0 "[]" cfg0 s1]
  by (simp add: valid_directions_def req_navigate_def)

text \<open>
  \<^bold>\<open>C8\<close>.  Once \<^verbatim>\<open>ensure_connected\<close> has returned \<^verbatim>\<open>True\<close>, each fixed command adds exactly one
  call to the history: the shell call \<^verbatim>\<open>input keyevent <code>\<close> on the controller's device
  handle, with the code of the command in decimal.
\<close>

theorem key_codes:
  assumes "ensure_connected T self tr = (Inr True, self1, tr1)"
  shows "\<exists>dev. device self1 = Some dev \<and>
     snd (snd (power_cmd T self tr)) = tr1 @ [Shell dev ''input keyevent 26''] \<and>
     snd (snd (volume_up T self tr)) = tr1 @ [Shell dev ''input keyevent 24''] \<and>
     snd (snd (volume_down T self tr)) = tr1 @ [Shell dev ''input keyevent 25''] \<and>
     snd (snd (mute T self tr)) = tr1 @ [Shell dev ''input keyevent 164''] \<and>
     snd (snd (navigate T ''up'' self tr)) = tr1 @ [Shell dev ''input keyevent 19''] \<and>
     snd (snd (navigate T ''down'' self tr)) = tr1 @ [Shell dev ''input keyevent 20''] \<and>
     snd (snd (navigate T ''left'' self tr)) = tr1 @ [Shell dev ''input keyevent 21''] \<and>
     snd (snd (navigate T ''right'' self tr)) = tr1 @ [Shell dev ''input keyevent 22''] \<and>
     snd (snd (navigate T ''ok'' self tr)) = tr1 @ [Shell dev ''input keyevent 23''] \<and>
     snd (snd (navigate T ''back'' self tr)) = tr1 @ [Shell dev ''input keyevent 4''] \<and>
     snd (snd (navigate T ''home'' self tr)) = tr1 @ [Shell dev ''input keyevent 3'']"
proof -
  from shell_after_ensure_write [OF assms, of "[]"]
  obtain dev where d: "device self1 = Some dev" by auto
  have w: "snd (snd (shell_after_ensure T cmd self tr)) = tr1 @ [Shell dev cmd]" for cmd
    using shell_after_ensure_write [OF assms, of cmd] d by auto
  show ?thesis
    using d
    by (simp add: power_cmd_def volume_up_def volume_down_def mute_def navigate_def
        keycode_map_def send_keyevent_eq w str_int_def digit_char_def
        KEYCODE_POWER_def KEYCODE_VOLUME_UP_def KEYCODE_VOLUME_DOWN_def KEYCODE_MUTE_def
        KEYCODE_DPAD_UP_def KEYCODE_DPAD_DOWN_def KEYCODE_DPAD_LEFT_def KEYCODE_DPAD_RIGHT_def
        KEYCODE_DPAD_CENTER_def KEYCODE_BACK_def KEYCODE_HOME_def)
qed

theorem key_codes_witness:
  "ensure_connected T_live tv0 [] = (Inr True, tv0, [Shell 0 ''echo test'']) \<and>
   snd (snd (power_cmd T_live tv0 [])) = [Shell 0 ''echo test'', Shell 0 ''input keyevent 26''] \<and>
   snd (snd (mute T_live tv0 [])) = [Shell 0 ''echo test'', Shell 0 ''input keyevent 164''] \<and>
   snd (snd (navigate T_live ''home'' tv0 [])) = [Shell 0 ''echo test'', Shell 0 ''input keyevent 3'']"
proof -
  have "device tv0 = Some 0" by (simp add: tv0_def)
  with key_codes [OF ensure_live] ensure_live show ?thesis by auto
qed

section \<open>Exceptions\<close>

text \<open>
  \<^bold>\<open>C9\<close> as the claim states it, for every behaviour of the transport, fails.  The
  handlers of \<^verbatim>\<open>connect\<close>, \<^verbatim>\<open>send_keyevent\<close> and \<^verbatim>\<open>launch_app\<close> are \<^verbatim>\<open>except Exception\<close>: an
  exception that is not an instance of \<^verbatim>\<open>Exception\<close>, here \<^verbatim>\<open>KeyboardInterrupt\<close> raised inside a
  transport call, leaves \<^verbatim>\<open>connect\<close>, and with it \<^verbatim>\<open>ensure_connected\<close>, and leaves \<^verbatim>\<open>power\<close> and
  \<^verbatim>\<open>launch_app\<close> when the instruction's shell call raises it.
\<close>

theorem interrupt_leaves_TVController_counterexample:
  "fst (connect T_interrupt tv0 []) = Inl (PyBaseException ''KeyboardInterrupt'') \<and>
   fst (ensure_connected T_interrupt (TVController_init ''192.168.1.100'' 5555) []) =
     Inl (PyBaseException ''KeyboardInterrupt'') \<and>
   fst (power_cmd T_interrupt tv0 []) = Inl (PyBaseException ''KeyboardInterrupt'') \<and>
   fst (launch_app T_interrupt ''com.netflix.ninja'' tv0 []) =
     Inl (PyBaseException ''KeyboardInterrupt'')"
  by (simp add: connect_def ensure_connected_def power_cmd_def send_keyevent_def launch_app_def
      T_interrupt_def tv0_def TVController_init_def except_Exception_def)

text \<open>
  \<^bold>\<open>C9\<close>, amended.  Let every exception the transport raises be an instance of
  \<^verbatim>\<open>Exception\<close>.  Then every method of \<^verbatim>\<open>TVController\<close> returns a boolean, whatever else the
  transport does: nothing leaves \<^verbatim>\<open>connect\<close>, \<^verbatim>\<open>ensure_connected\<close>, \<^verbatim>\<open>send_keyevent\<close>,
  \<^verbatim>\<open>navigate\<close>, \<^verbatim>\<open>launch_app\<close> or the four key-event wrappers.  And a transport call that
  raises is turned into the failure \<^verbatim>\<open>False\<close>: a raising \<^verbatim>\<open>client.connect\<close> or \<^verbatim>\<open>get_serial_no\<close>
  makes \<^verbatim>\<open>connect\<close> return \<^verbatim>\<open>False\<close> with the controller untouched; a raising probe makes
  \<^verbatim>\<open>ensure_connected\<close> return what the reconnect returns; \<^verbatim>\<open>send_keyevent\<close> and \<^verbatim>\<open>launch_app\<close>
  return \<^verbatim>\<open>False\<close>, with no further call, when \<^verbatim>\<open>ensure_connected\<close> returned \<^verbatim>\<open>False\<close>, and return
  \<^verbatim>\<open>False\<close> when the instruction's own shell call raises.
\<close>

theorem Exception_becomes_False:
  assumes "raises_only_Exception T"
  shows "(\<exists>b. fst (connect T self tr) = Inr b) \<and>
   (\<exists>b. fst (ensure_connected T self tr) = Inr b) \<and>
   (\<exists>b. fst (send_keyevent T keycode self tr) = Inr b) \<and>
   (\<exists>b. fst (navigate T direction self tr) = Inr b) \<and>
   (\<exists>b. fst (launch_app T package_name self tr) = Inr b) \<and>
   (\<exists>b. fst (power_cmd T self tr) = Inr b) \<and>
   (\<exists>b. fst (volume_up T self tr) = Inr b) \<and>
   (\<exists>b. fst (volume_down T self tr) = Inr b) \<and>
   (\<exists>b. fst (mute T self tr) = Inr b) \<and>
   (\<forall>e. client_connect T tr (host self) (port self) = Raises e \<longrightarrow>
        connect T self tr = (Inr False, self, tr @ [Connect (host self) (port self)])) \<and>
   (\<forall>dev e. client_connect T tr (host self) (port self) = Returns (Some dev) \<and>
            get_serial_no T (tr @ [Connect (host self) (port self)]) dev = Raises e \<longrightarrow>
        connect T self tr =
          (Inr False, self, tr @ [Connect (host self) (port self), GetSerialNo dev])) \<and>
   (\<forall>dev e. device self = Some dev \<and> shell T tr dev ''echo test'' = Raises e \<longrightarrow>
        ensure_connected T self tr = connect T self (tr @ [Shell dev ''echo test''])) \<and>
   (fst (ensure_connected T self tr) = Inr False \<longrightarrow>
        send_keyevent T keycode self tr = ensure_connected T self tr \<and>
        launch_app T package_name self tr = ensure_connected T self tr) \<and>
   (\<forall>self1 tr1 dev e.
        ensure_connected T self tr = (Inr True, self1, tr1) \<and> device self1 = Some dev \<and>
        shell T tr1 dev (''input keyevent '' @ str_int keycode) = Raises e \<longrightarrow>
        send_keyevent T keycode self tr =
          (Inr False, self1, tr1 @ [Shell dev (''input keyevent '' @ str_int keycode)])) \<and>
   (\<forall>self1 tr1 dev e.
        ensure_connected T self tr = (Inr True, self1, tr1) \<and> device self1 = Some dev \<and>
        shell T tr1 dev (instruction (LaunchApp package_name)) = Raises e \<longrightarrow>
        launch_app T package_name self tr =
          (Inr False, self1, tr1 @ [Shell dev (instruction (LaunchApp package_name))]))"
proof -
  note c = connect_returns [OF assms]
  note n = ensure_connected_returns [OF assms]
  note a = shell_after_ensure_returns [OF assms]
  have x: "is_Exception e" if "shell T tr1 dev cmd = Raises e" for tr1 dev cmd e
    using assms that unfolding raises_only_Exception_def by blast
  have y: "is_Exception e" if "client_connect T tr h p = Raises e" for h p e
    using assms that unfolding raises_only_Exception_def by blast
  have z: "is_Exception e" if "get_serial_no T tr1 dev = Raises e" for tr1 dev e
    using assms that unfolding raises_only_Exception_def by blast
  have 1: "\<exists>b. fst (connect T self tr) = Inr b" by (rule c)
  have 2: "\<exists>b. fst (ensure_connected T self tr) = Inr b" by (rule n)
  have 3: "\<exists>b. fst (send_keyevent T keycode self tr) = Inr b"
    by (simp add: send_keyevent_eq a)
  have 4: "\<exists>b. fst (navigate T direction self tr) = Inr b"
    by (auto simp: navigate_def send_keyevent_eq a split: option.splits)
  have 5: "\<exists>b. fst (launch_app T package_name self tr) = Inr b"
    by (simp add: launch_app_eq a)
  have 6: "\<exists>b. fst (power_cmd T self tr) = Inr b"
    by (simp add: power_cmd_def send_keyevent_eq a)
  have 7: "\<exists>b. fst (volume_up T self tr) = Inr b"
    by (simp add: volume_up_def send_keyevent_eq a)
  have 8: "\<exists>b. fst (volume_down T self tr) = Inr b"
    by (simp add: volume_down_def send_keyevent_eq a)
  have 9: "\<exists>b. fst (mute T self tr) = Inr b"
    by (simp add: mute_def send_keyevent_eq a)
  have 10: "\<forall>e. client_connect T tr (host self) (port self) = Raises e \<longrightarrow>
        connect T self tr = (Inr False, self, tr @ [Connect (host self) (port self)])"
    using y by (auto simp: connect_def except_is_Exception)
  have 11: "\<forall>dev e. client_connect T tr (host self) (port self) = Returns (Some dev) \<and>
            get_serial_no T (tr @ [Connect (host self) (port self)]) dev = Raises e \<longrightarrow>
        connect T self tr =
          (Inr False, self, tr @ [Connect (host self) (port self), GetSerialNo dev])"
    using z by (auto simp: connect_def except_is_Exception)
  have 12: "\<forall>dev e. device self = Some dev \<and> shell T tr dev ''echo test'' = Raises e \<longrightarrow>
        ensure_connected T self tr = connect T self (tr @ [Shell dev ''echo test''])"
    by (simp add: ensure_connected_def)
  have 13: "fst (ensure_connected T self tr) = Inr False \<longrightarrow>
        send_keyevent T keycode self tr = ensure_connected T self tr \<and>
        launch_app T package_name self tr = ensure_connected T self tr"
    by (auto simp: send_keyevent_eq launch_app_eq shell_after_ensure_def split: prod.splits)
  have s: "ensure_connected T self tr = (Inr True, self1, tr1) \<and> device self1 = Some dev \<and>
           shell T tr1 dev cmd = Raises e \<longrightarrow>
           shell_after_ensure T cmd self tr = (Inr False, self1, tr1 @ [Shell dev cmd])"
    for self1 tr1 dev cmd e
    using x [of tr1 dev cmd e] by (auto simp: shell_after_ensure_def except_is_Exception)
  have 14: "\<forall>self1 tr1 dev e.
        ensure_connected T self tr = (Inr True, self1, tr1) \<and> device self1 = Some dev \<and>
        shell T tr1 dev (''input keyevent '' @ str_int keycode) = Raises e \<longrightarrow>
        send_keyevent T keycode self tr =
          (Inr False, self1, tr1 @ [Shell dev (''input keyevent '' @ str_int keycode)])"
    unfolding send_keyevent_eq using s by blast
  have 15: "\<forall>self1 tr1 dev e.
        ensure_connected T self tr = (Inr True, self1, tr1) \<and> device self1 = Some dev \<and>
        shell T tr1 dev (instruction (LaunchApp package_name)) = Raises e \<longrightarrow>
        launch_app T package_name self tr =
          (Inr False, self1, tr1 @ [Shell dev (instruction (LaunchApp package_name))])"
    unfolding launch_app_fun using s by blast
  from 1 2 3 4 5 6 7 8 9 10 11 12 13 14 15 show ?thesis by (intro conjI)
qed

lemma raises_only_Exception_T_flaky: "raises_only_Exception T_flaky"
  by (auto simp: raises_only_Exception_def T_flaky_def split: if_splits)

lemma raises_only_Exception_T_down: "raises_only_Exception T_down"
  by (auto simp: raises_only_Exception_def T_down_def)

theorem Exception_becomes_False_witness:
  "raises_only_Exception T_flaky \<and>
   ensure_connected T_flaky tv0 [] = (Inr True, tv0, [Shell 0 ''echo test'']) \<and>
   device tv0 = Some 0 \<and>
   shell T_flaky [Shell 0 ''echo test''] 0 (''input keyevent '' @ str_int 26) =
     Raises (PyException ''RuntimeError'') \<and>
   send_keyevent T_flaky 26 tv0 [] =
     (Inr False, tv0, [Shell 0 ''echo test'', Shell 0 ''input keyevent 26'']) \<and>
   raises_only_Exception T_down \<and>
   client_connect T_down [] (host tv0) (port tv0) = Raises (PyException ''RuntimeError'') \<and>
   connect T_down tv0 [] = (Inr False, tv0, [Connect ''192.168.1.100'' 5555])"
proof -
  have e: "ensure_connected T_flaky tv0 [] = (Inr True, tv0, [Shell 0 ''echo test''])"
    by (simp add: ensure_connected_def T_flaky_def tv0_def)
  have d: "device tv0 = Some 0" by (simp add: tv0_def)
  have r: "shell T_flaky [Shell 0 ''echo test''] 0 (''input keyevent '' @ str_int 26) =
             Raises (PyException ''RuntimeError'')"
    by (simp add: T_flaky_def)
  have k: "client_connect T_down [] (host tv0) (port tv0) = Raises (PyException ''RuntimeError'')"
    by (simp add: T_down_def)
  have h: "host tv0 = ''192.168.1.100''" "port tv0 = 5555" by (simp_all add: tv0_def)
  note w1 = Exception_becomes_False [OF raises_only_Exception_T_flaky, of tv0 "[]" 26]
  note w2 = Exception_becomes_False [OF raises_only_Exception_T_down, of tv0 "[]"]
  from w1 e d r have "send_keyevent T_flaky 26 tv0 [] =
      (Inr False, tv0, [Shell 0 ''echo test''] @ [Shell 0 (''input keyevent '' @ str_int 26)])"
    by blast
  moreover from w2 k have "connect T_down tv0 [] =
      (Inr False, tv0, [] @ [Connect (host tv0) (port tv0)])"
    by blast
  ultimately show ?thesis
    using e d r k raises_only_Exception_T_flaky raises_only_Exception_T_down
    by (simp add: h str_int_def digit_char_def)
qed

section \<open>Transport calls of a dispatch\<close>

text \<open>
  \<^bold>\<open>C1\<close> as the claim states it, counting every shell call as a write, fails: with a live
  cached handle a successful \<^verbatim>\<open>power\<close> makes two shell calls, the probe \<^verbatim>\<open>echo test\<close> and the
  instruction; and with an unreachable device the failing \<^verbatim>\<open>power\<close> has still made one shell
  call, the probe.
\<close>

theorem two_shell_calls_counterexample:
  "fst (power_cmd T_live tv0 []) = Inr True \<and>
   length (writes (new_events [] (snd (snd (power_cmd T_live tv0 []))))) = 2 \<and>
   fst (power_cmd T_down tv0 []) = Inr False \<and>
   length (writes (new_events [] (snd (snd (power_cmd T_down tv0 []))))) = 1"
  using power_live power_down by (simp add: new_events_def)

text \<open>
  \<^bold>\<open>C1\<close>, amended.  For every recognized command, from every controller and history: the
  method only extends the history.  When it returns \<^verbatim>\<open>True\<close>, the shell calls it made are the
  probe \<^verbatim>\<open>echo test\<close> (once, when the controller held a device handle; not at all otherwise)
  followed by exactly one command instruction, which is the last transport call.  On every
  other path (the method returns \<^verbatim>\<open>False\<close>, or an exception that is not an instance of
  \<^verbatim>\<open>Exception\<close> leaves it) the shell calls are the same probe and either no instruction at
  all, or the one instruction whose own shell call raised.  This holds for each call on its
  own, so also for each of several successive \<^verbatim>\<open>power\<close> calls.
\<close>

theorem one_instruction_per_dispatch:
  assumes "recognized cmd"
      and "run_command T cmd self tr = (res, self1, tr1)"
  shows "tr1 = tr @ new_events tr tr1 \<and>
     (if res = Inr True
      then writes (new_events tr tr1) = probe_writes self @ [instruction cmd] \<and>
           (\<exists>dev. last tr1 = Shell dev (instruction cmd))
      else (res = Inr False \<or> (\<exists>cls. res = Inl (PyBaseException cls))) \<and>
           (writes (new_events tr tr1) = probe_writes self \<or>
            writes (new_events tr tr1) = probe_writes self @ [instruction cmd] \<and>
            (\<exists>dev e. last tr1 = Shell dev (instruction cmd) \<and>
                     shell T (butlast tr1) dev (instruction cmd) = Raises e)))"
proof -
  from assms have "shell_after_ensure T (instruction cmd) self tr = (res, self1, tr1)"
    by (simp add: run_command_eq)
  from shell_after_ensure_shape [OF this] obtain ev where
    a: "tr1 = tr @ ev" and
    b: "if res = Inr True
      then writes ev = probe_writes self @ [instruction cmd] \<and>
           (\<exists>dev. last tr1 = Shell dev (instruction cmd))
      else (res = Inr False \<or> (\<exists>cls. res = Inl (PyBaseException cls))) \<and>
           (writes ev = probe_writes self \<or>
            writes ev = probe_writes self @ [instruction cmd] \<and>
            (\<exists>dev e. last tr1 = Shell dev (instruction cmd) \<and>
                     shell T (butlast tr1) dev (instruction cmd) = Raises e))"
    by blast
  from a have n: "new_events tr tr1 = ev" by (simp add: new_events_append)
  show ?thesis unfolding n using a b by (rule conjI)
qed

theorem one_instruction_per_dispatch_witness:
  "recognized Power \<and>
   run_command T_live Power tv0 [] =
     (Inr True, tv0, [Shell 0 ''echo test'', Shell 0 ''input keyevent 26'']) \<and>
   writes (new_events [] [Shell 0 ''echo test'', Shell 0 ''input keyevent 26'']) =
     probe_writes tv0 @ [instruction Power] \<and>
   probe_writes tv0 @ [instruction Power] = [''echo test'', ''input keyevent 26'']"
  using one_instruction_per_dispatch [of Power T_live tv0 "[]", OF _ power_live] power_live
  by (simp add: probe_writes_def tv0_def KEYCODE_POWER_def str_int_def digit_char_def)

text \<open>
  \<^bold>\<open>C2\<close>.  A recognized command on a controller that holds a device handle whose probe
  raises: the calls made start with the probe and one connect to the controller's own
  endpoint (\<^verbatim>\<open>self.host\<close>, \<^verbatim>\<open>self.port\<close>, which \<^verbatim>\<open>get_tv_controller\<close> took from the configuration),
  and that is the only connect.  When this reconnect returns \<^verbatim>\<open>True\<close> the command goes on to
  its instruction, the last call made; when it returns \<^verbatim>\<open>False\<close>, the method returns \<^verbatim>\<open>False\<close>
  and the probe is the only shell call: no instruction is written.  (When an exception that
  is not an instance of \<^verbatim>\<open>Exception\<close> leaves the reconnect, it leaves the method, and again
  the probe is the only shell call.)
\<close>

theorem one_reconnect:
  assumes "recognized cmd"
      and "device self = Some dev"
      and "shell T tr dev ''echo test'' = Raises e"
      and "run_command T cmd self tr = (res, self1, tr1)"
  shows "take 2 (new_events tr tr1) = [Shell dev ''echo test'', Connect (host self) (port self)] \<and>
         connects (new_events tr tr1) = [(host self, port self)] \<and>
         (if fst (connect T self (tr @ [Shell dev ''echo test''])) = Inr True
          then writes (new_events tr tr1) = [''echo test'', instruction cmd] \<and>
               (\<exists>d. last tr1 = Shell d (instruction cmd))
          else if fst (connect T self (tr @ [Shell dev ''echo test''])) = Inr False
          then res = Inr False \<and> writes (new_events tr tr1) = [''echo test'']
          else (\<exists>cls. res = Inl (PyBaseException cls)) \<and>
               res = fst (connect T self (tr @ [Shell dev ''echo test''])) \<and>
               writes (new_events tr tr1) = [''echo test''])"
proof -
  let ?tr0 = "tr @ [Shell dev ''echo test'']"
  from connect_shape [of T self ?tr0]
  obtain res0 self2 ev where
    c: "connect T self ?tr0 = (res0, self2, ?tr0 @ Connect (host self) (port self) # ev)"
    and w: "writes ev = []" and k: "connects ev = []"
    and d: "if res0 = Inr True then device self2 \<noteq> None
            else self2 = self \<and> (res0 = Inr False \<or> (\<exists>cls. res0 = Inl (PyBaseException cls)))"
    by blast
  let ?tr2 = "tr @ Shell dev ''echo test'' # Connect (host self) (port self) # ev"
  have e: "ensure_connected T self tr = (res0, self2, ?tr2)"
    using assms(2,3) c by (simp add: ensure_connected_def)
  have r: "shell_after_ensure T (instruction cmd) self tr = (res, self1, tr1)"
    using assms(1,4) by (simp add: run_command_eq)
  show ?thesis
  proof (cases "res0 = Inr True")
    case False
    with d have f: "res0 = Inr False \<or> (\<exists>cls. res0 = Inl (PyBaseException cls))" by simp
    with e r have "res = res0" "tr1 = ?tr2"
      by (auto simp: shell_after_ensure_def)
    with False f c w k show ?thesis
      by (auto simp: new_events_append writes_append connects_append)
  next
    case True
    with d obtain d2 where d2: "device self2 = Some d2" by auto
    let ?i = "instruction cmd"
    have "tr1 = tr @ (Shell dev ''echo test'' # Connect (host self) (port self) # ev @ [Shell d2 ?i])"
      using e r True d2 by (auto simp: shell_after_ensure_def split: outcome.splits)
    with True c w k show ?thesis
      by (simp add: new_events_append writes_append connects_append)
  qed
qed

theorem one_reconnect_witness:
  "recognized Power \<and> device tv0 = Some 0 \<and>
   shell T_stale [] 0 ''echo test'' = Raises (PyException ''RuntimeError'') \<and>
   fst (connect T_stale tv0 [Shell 0 ''echo test'']) = Inr True \<and>
   connects (new_events [] (snd (snd (run_command T_stale Power tv0 [])))) =
     [(''192.168.1.100'', 5555)] \<and>
   writes (new_events [] (snd (snd (run_command T_stale Power tv0 [])))) =
     [''echo test'', ''input keyevent 26''] \<and>
   shell T_down [] 0 ''echo test'' = Raises (PyException ''RuntimeError'') \<and>
   fst (connect T_down tv0 [Shell 0 ''echo test'']) = Inr False \<and>
   fst (run_command T_down Power tv0 []) = Inr False \<and>
   connects (new_events [] (snd (snd (run_command T_down Power tv0 [])))) =
     [(''192.168.1.100'', 5555)] \<and>
   writes (new_events [] (snd (snd (run_command T_down Power tv0 [])))) = [''echo test'']"
proof -
  have s: "shell T_stale [] 0 ''echo test'' = Raises (PyException ''RuntimeError'')"
    by (simp add: T_stale_def)
  have d: "shell T_down [] 0 ''echo test'' = Raises (PyException ''RuntimeError'')"
    by (simp add: T_down_def)
  have t: "device tv0 = Some 0" by (simp add: tv0_def)
  have cs: "fst (connect T_stale tv0 [Shell 0 ''echo test'']) = Inr True"
    by (simp add: connect_def T_stale_def)
  have cd: "fst (connect T_down tv0 [Shell 0 ''echo test'']) = Inr False"
    by (simp add: connect_def T_down_def except_Exception_def)
  have h: "host tv0 = ''192.168.1.100''" "port tv0 = 5555" by (simp_all add: tv0_def)
  note a = one_reconnect [of Power tv0 0 T_stale "[]", OF _ t s power_stale]
  note b = one_reconnect [of Power tv0 0 T_down "[]", OF _ t d power_down]
  show ?thesis using a b s d t cs cd h power_stale power_down
    by (simp add: new_events_def KEYCODE_POWER_def str_int_def digit_char_def)
qed

text \<open>
  \<^bold>\<open>C6\<close>.  A user with no cache entry sends a recognized command; the connect to the
  configured endpoint returns a handle with a truthy serial number and the probe on that
  handle returns.  Then, for each of the six routes, the transport calls of the request are
  exactly: one connect to the configured endpoint, the serial number check, the probe, and
  the instruction of the command.  So exactly one connect is made, and it comes before the
  instruction; whether the instruction's own call returns or raises does not matter.
\<close>

theorem first_dispatch_connects_once:
  assumes "tv_controller_cache s (user_id u) = None"
      and "client_connect T (trace s) (ANDROID_TV_IP cfg) (ANDROID_TV_PORT cfg) = Returns (Some d)"
      and "get_serial_no T (trace s @ [Connect (ANDROID_TV_IP cfg) (ANDROID_TV_PORT cfg)]) d =
             Returns serial"
      and "truthy_str serial"
      and "shell T (trace s @ [Connect (ANDROID_TV_IP cfg) (ANDROID_TV_PORT cfg), GetSerialNo d])
             d ''echo test'' = Returns out"
      and "current_user req = Some u"
      and "current_user req_n = Some u"
      and "get_json req_n = Some data_n"
      and "map_of data_n ''direction'' = Some (JString direction)"
      and "direction \<in> set valid_directions"
      and "current_user req_l = Some u"
      and "get_json req_l = Some data_l"
      and "map_of data_l ''package_name'' = Some v"
  shows "trace (snd (api_power T cfg req s)) =
           trace s @ first_dispatch cfg d (instruction Power) \<and>
         trace (snd (api_volume_up T cfg req s)) =
           trace s @ first_dispatch cfg d (instruction VolumeUp) \<and>
         trace (snd (api_volume_down T cfg req s)) =
           trace s @ first_dispatch cfg d (instruction VolumeDown) \<and>
         trace (snd (api_volume_mute T cfg req s)) =
           trace s @ first_dispatch cfg d (instruction Mute) \<and>
         trace (snd (api_navigate T cfg req_n s)) =
           trace s @ first_dispatch cfg d (instruction (Navigate direction)) \<and>
         trace (snd (api_launch_app T cfg req_l s)) =
           trace s @ first_dispatch cfg d (instruction (LaunchApp (py_str v))) \<and>
         connects (first_dispatch cfg d i) = [(ANDROID_TV_IP cfg, ANDROID_TV_PORT cfg)]"
proof -
  note f = run_on_tv_first [OF assms(1-5)]
  have 1: "trace (snd (api_power T cfg req s)) =
             trace s @ first_dispatch cfg d (instruction Power)"
    using assms(6) f by (simp add: api_power_def power_cmd_fun del: instruction.simps)
  have 2: "trace (snd (api_volume_up T cfg req s)) =
             trace s @ first_dispatch cfg d (instruction VolumeUp)"
    using assms(6) f by (simp add: api_volume_up_def volume_up_fun del: instruction.simps)
  have 3: "trace (snd (api_volume_down T cfg req s)) =
             trace s @ first_dispatch cfg d (instruction VolumeDown)"
    using assms(6) f by (simp add: api_volume_down_def volume_down_fun del: instruction.simps)
  have 4: "trace (snd (api_volume_mute T cfg req s)) =
             trace s @ first_dispatch cfg d (instruction Mute)"
    using assms(6) f by (simp add: api_volume_mute_def mute_fun del: instruction.simps)
  from assms(9) have "data_n \<noteq> []" by auto
  then have 5: "trace (snd (api_navigate T cfg req_n s)) =
             trace s @ first_dispatch cfg d (instruction (Navigate direction))"
    using assms(7-10) f
    by (simp add: api_navigate_def navigate_fun [OF assms(10)] del: instruction.simps)
  from assms(13) have "data_l \<noteq> []" by auto
  then have 6: "trace (snd (api_launch_app T cfg req_l s)) =
             trace s @ first_dispatch cfg d (instruction (LaunchApp (py_str v)))"
    using assms(11-13) f
    by (simp add: api_launch_app_def launch_app_fun Let_def del: instruction.simps)
  have 7: "connects (first_dispatch cfg d i) = [(ANDROID_TV_IP cfg, ANDROID_TV_PORT cfg)]"
    by (simp add: first_dispatch_def)
  from 1 2 3 4 5 6 7 show ?thesis by (intro conjI)
qed

theorem first_dispatch_connects_once_witness:
  "tv_controller_cache s0 (user_id alice) = None \<and>
   trace (snd (api_power T_live cfg0 req_power s0)) =
     [Connect ''192.168.1.100'' 5555, GetSerialNo 1, Shell 1 ''echo test'',
      Shell 1 ''input keyevent 26''] \<and>
   trace (snd (api_navigate T_live cfg0 (req_navigate ''up'') s0)) =
     [Connect ''192.168.1.100'' 5555, GetSerialNo 1, Shell 1 ''echo test'',
      Shell 1 ''input keyevent 19''] \<and>
   trace (snd (api_launch_app T_live cfg0 (req_launch ''com.netflix.ninja'') s0)) =
     [Connect ''192.168.1.100'' 5555, GetSerialNo 1, Shell 1 ''echo test'',
      Shell 1 ''monkey -p com.netflix.ninja -c android.intent.category.LAUNCHER 1'']"
proof -
  have 1: "tv_controller_cache s0 (user_id alice) = None" by (simp add: s0_def)
  have 2: "client_connect T_live (trace s0) (ANDROID_TV_IP cfg0) (ANDROID_TV_PORT cfg0) =
             Returns (Some 1)"
    by (simp add: T_live_def)
  have 3: "get_serial_no T_live (trace s0 @ [Connect (ANDROID_TV_IP cfg0) (ANDROID_TV_PORT cfg0)]) 1
             = Returns (Some ''192.168.1.100:5555'')"
    by (simp add: T_live_def)
  have 4: "truthy_str (Some ''192.168.1.100:5555'')" by simp
  have 5: "shell T_live
             (trace s0 @ [Connect (ANDROID_TV_IP cfg0) (ANDROID_TV_PORT cfg0), GetSerialNo 1])
             1 ''echo test'' = Returns []"
    by (simp add: T_live_def)
  have 6: "current_user req_power = Some alice" by (simp add: req_power_def)
  have 7: "current_user (req_navigate ''up'') = Some alice"
    "get_json (req_navigate ''up'') = Some [(''direction'', JString ''up'')]"
    "map_of [(''direction'', JString ''up'')] ''direction'' = Some (JString ''up'')"
    "''up'' \<in> set valid_directions"
    by (simp_all add: req_navigate_def valid_directions_def)
  have 8: "current_user (req_launch ''com.netflix.ninja'') = Some alice"
    "get_json (req_launch ''com.netflix.ninja'') =
       Some [(''package_name'', JString ''com.netflix.ninja'')]"
    "map_of [(''package_name'', JString ''com.netflix.ninja'')] ''package_name'' =
       Some (JString ''com.netflix.ninja'')"
    by (simp_all add: req_launch_def)
  note w = first_dispatch_connects_once [OF 1 2 3 4 5 6 7 8]
  have t: "trace s0 = []" by (simp add: s0_def)
  show ?thesis
    using w 1
    by (simp add: t first_dispatch_def cfg0_def keycode_map_def KEYCODE_POWER_def
        KEYCODE_DPAD_UP_def str_int_def digit_char_def)
qed

section \<open>The session cache\<close>

text \<open>
  \<^bold>\<open>C5\<close>.  An authenticated user posts to \<^verbatim>\<open>/api/tv/power\<close> while the device is unreachable
  (every \<^verbatim>\<open>connect()\<close> returns \<^verbatim>\<open>False\<close>, every probe raises).  The answer is HTTP 500 with an
  error message: \<^verbatim>\<open>Failed to connect to Android TV\<close> when the user had no cache entry,
  \<^verbatim>\<open>Failed to send power command\<close> when the user had one.  The request leaves the cache as it
  was: no entry is inserted for a user who had none, and an entry the user had stays, with
  its dead handle.  In both cases the user has no valid entry afterwards.
\<close>

theorem unreachable_power_500:
  assumes "unreachable T" and "current_user req = Some u"
  shows "fst (api_power T cfg req s) =
           Inr (Json 500 ''error''
                 (if tv_controller_cache s (user_id u) = None
                  then ''Failed to connect to Android TV''
                  else ''Failed to send power command'')) \<and>
         tv_controller_cache (snd (api_power T cfg req s)) = tv_controller_cache s \<and>
         \<not> valid_entry T (snd (api_power T cfg req s)) (user_id u)"
proof -
  have v: "\<not> valid_entry T s2 uid" for s2 uid
    using unreachable_ensure [OF assms(1)] by (simp add: valid_entry_def split: option.splits)
  have "fst (api_power T cfg req s) =
           Inr (Json 500 ''error''
                 (if tv_controller_cache s (user_id u) = None
                  then ''Failed to connect to Android TV''
                  else ''Failed to send power command'')) \<and>
         tv_controller_cache (snd (api_power T cfg req s)) = tv_controller_cache s"
  proof (cases "tv_controller_cache s (user_id u)")
    case None
    obtain res s1 where g: "get_tv_controller T cfg (user_id u) s = (res, s1)"
      by (cases "get_tv_controller T cfg (user_id u) s")
    with get_tv_controller_unreachable [OF assms(1) None, of cfg]
    have "res = Inr None" "tv_controller_cache s1 = tv_controller_cache s" by simp_all
    with None g assms(2) show ?thesis by (simp add: api_power_def run_on_tv_def)
  next
    case (Some r)
    obtain res s2 where c: "call_method (power_cmd T) r s = (res, s2)"
      by (cases "call_method (power_cmd T) r s")
    have "fst (call_method (power_cmd T) r s) = Inr False"
      using unreachable_shell_after [OF assms(1)] by (simp add: fst_call_method power_cmd_fun)
    moreover have "tv_controller_cache (snd (call_method (power_cmd T) r s)) =
                     tv_controller_cache s"
      by (simp add: cache_call_method)
    ultimately have "res = Inr False" "tv_controller_cache s2 = tv_controller_cache s"
      using c by simp_all
    with Some c assms(2) show ?thesis
      by (simp add: api_power_def run_on_tv_def get_tv_controller_cached)
  qed
  with v show ?thesis by blast
qed

theorem unreachable_power_500_witness:
  "unreachable T_down \<and> current_user req_power = Some alice \<and>
   fst (api_power T_down cfg0 req_power s0) =
     Inr (Json 500 ''error'' ''Failed to connect to Android TV'') \<and>
   tv_controller_cache (snd (api_power T_down cfg0 req_power s0)) (user_id alice) = None \<and>
   fst (api_power T_down cfg0 req_power s1) =
     Inr (Json 500 ''error'' ''Failed to send power command'') \<and>
   tv_controller_cache (snd (api_power T_down cfg0 req_power s1)) (user_id alice) = Some 0"
proof -
  have u: "current_user req_power = Some alice" by (simp add: req_power_def)
  have a: "tv_controller_cache s0 (user_id alice) = None" by (simp add: s0_def)
  have b: "tv_controller_cache s1 (user_id alice) = Some 0" by (simp add: s1_def alice_def)
  note w0 = unreachable_power_500 [OF unreachable_T_down u, of cfg0 s0]
  note w1 = unreachable_power_500 [OF unreachable_T_down u, of cfg0 s1]
  show ?thesis using w0 w1 unreachable_T_down u a b by simp
qed



end
